theory Spec2Isabelle
  imports Main "HOL-Library.AList" "HOL-Library.Product_Lexorder"
begin

section \<open>Bio.AlignIO.MafIO: the interval binning scheme\<close>

text \<open>
  Python integers are unbounded, so coordinates are \<^typ>\<open>int\<close>. Python's \<open>x >> k\<close> is
  the floor division of \<open>x\<close> by \<open>2 ^ k\<close>, also for a negative \<open>x\<close>, which is what
  \<^const>\<open>drop_bit\<close> computes on \<^typ>\<open>int\<close>.
\<close>

definition shr :: "int \<Rightarrow> nat \<Rightarrow> int" where
  "shr x k = drop_bit k x"

text \<open>Python's \<open>range(a, b)\<close> over integers is the list of \<open>a, a + 1, ..., b - 1\<close>.\<close>

definition py_range :: "int \<Rightarrow> int \<Rightarrow> int list" where
  "py_range a b = [a .. b - 1]"

text \<open>
  \<open>MafIndex._region2bin(start, end)\<close>: the list \<open>bins\<close> starts as \<open>[0, 1]\<close>, is extended by
  four ranges, and is returned as a set.
\<close>

definition region2bin_list :: "int \<Rightarrow> int \<Rightarrow> int list" where
  "region2bin_list start end =
     [0, 1]
     @ py_range (1 + shr start 26) (2 + shr (end - 1) 26)
     @ py_range (9 + shr start 23) (10 + shr (end - 1) 23)
     @ py_range (73 + shr start 20) (74 + shr (end - 1) 20)
     @ py_range (585 + shr start 17) (586 + shr (end - 1) 17)"

definition region2bin :: "int \<Rightarrow> int \<Rightarrow> int set" where
  "region2bin start end = set (region2bin_list start end)"

text \<open>
  \<open>MafIndex._ucscbin(start, end)\<close>: \<open>bin_offsets\<close>, the two shift constants, and the loop
  over the offsets, which shifts both bins by \<open>_bin_next_shift\<close> after each level that
  does not unify them and returns 0 when the offsets are used up.
\<close>

definition bin_offsets :: "int list" where
  "bin_offsets = [512 + 64 + 8 + 1, 64 + 8 + 1, 8 + 1, 1, 0]"

definition bin_first_shift :: nat where
  "bin_first_shift = 17"

definition bin_next_shift :: nat where
  "bin_next_shift = 3"

fun ucscbin_loop :: "int list \<Rightarrow> int \<Rightarrow> int \<Rightarrow> int" where
  "ucscbin_loop [] start_bin end_bin = 0"
| "ucscbin_loop (bin_offset # rest) start_bin end_bin =
     (if start_bin = end_bin then bin_offset + start_bin
      else ucscbin_loop rest (shr start_bin bin_next_shift) (shr end_bin bin_next_shift))"

definition ucscbin :: "int \<Rightarrow> int \<Rightarrow> int" where
  "ucscbin start end =
     ucscbin_loop bin_offsets (shr start bin_first_shift) (shr (end - 1) bin_first_shift)"

section \<open>Python string operations used by the module\<close>

text \<open>
  A text is a \<^typ>\<open>string\<close> of one-byte characters (ASCII text, one \<^typ>\<open>char\<close> per
  symbol). White space is what Python 3's \<open>str.isspace\<close> accepts in the ASCII range:
  tab, line feed, vertical tab, form feed, carriage return, the four separators
  \<open>0x1C\<close> to \<open>0x1F\<close>, and the space.
\<close>

definition isspace :: "char \<Rightarrow> bool" where
  "isspace c \<longleftrightarrow>
     c \<in> set [CHR 0x09, CHR 0x0A, CHR 0x0B, CHR 0x0C, CHR 0x0D,
                CHR 0x1C, CHR 0x1D, CHR 0x1E, CHR 0x1F, CHR 0x20]"

text \<open>\<open>s.startswith(p)\<close>.\<close>

definition startswith :: "string \<Rightarrow> string \<Rightarrow> bool" where
  "startswith s p \<longleftrightarrow> take (length p) s = p"

text \<open>\<open>s.strip()\<close>: white space removed at both ends.\<close>

definition strip :: "string \<Rightarrow> string" where
  "strip s = rev (dropWhile isspace (rev (dropWhile isspace s)))"

text \<open>
  \<open>s.split()\<close>: the maximal runs of characters that are not white space. The
  accumulator \<open>cur\<close> holds the current run, reversed.
\<close>

fun split_acc :: "string \<Rightarrow> string \<Rightarrow> string list" where
  "split_acc cur [] = (if cur = [] then [] else [rev cur])"
| "split_acc cur (c # cs) =
     (if isspace c then (if cur = [] then split_acc [] cs else rev cur # split_acc [] cs)
      else split_acc (c # cur) cs)"

definition split :: "string \<Rightarrow> string list" where
  "split s = split_acc [] s"

text \<open>\<open>s.split(sep)\<close> for a one-character separator: empty fields are kept.\<close>

fun split_on_acc :: "char \<Rightarrow> string \<Rightarrow> string \<Rightarrow> string list" where
  "split_on_acc sep cur [] = [rev cur]"
| "split_on_acc sep cur (c # cs) =
     (if c = sep then rev cur # split_on_acc sep [] cs else split_on_acc sep (c # cur) cs)"

definition split_on :: "char \<Rightarrow> string \<Rightarrow> string list" where
  "split_on sep s = split_on_acc sep [] s"

text \<open>\<open>s.count(c)\<close> and \<open>s.replace(c, "")\<close> for a one-character \<open>c\<close>.\<close>

definition count_char :: "char \<Rightarrow> string \<Rightarrow> nat" where
  "count_char c s = length (filter (\<lambda>x. x = c) s)"

definition remove_char :: "char \<Rightarrow> string \<Rightarrow> string" where
  "remove_char c s = filter (\<lambda>x. x \<noteq> c) s"

text \<open>
  \<open>int(s)\<close> on a string: surrounding white space is dropped, an optional sign is
  followed by one or more decimal digits. \<open>None\<close> stands for the \<open>ValueError\<close> that
  \<open>int\<close> raises on any other text. (The underscores that Python 3.6 and later allow
  between digits are not part of the model.)
\<close>

definition digit_val :: "char \<Rightarrow> int option" where
  "digit_val c = map_of (zip ''0123456789'' [0, 1, 2, 3, 4, 5, 6, 7, 8, 9]) c"

fun digits_acc :: "int \<Rightarrow> string \<Rightarrow> int option" where
  "digits_acc acc [] = Some acc"
| "digits_acc acc (c # cs) =
     (case digit_val c of None \<Rightarrow> None | Some d \<Rightarrow> digits_acc (10 * acc + d) cs)"

definition unsigned_int :: "string \<Rightarrow> int option" where
  "unsigned_int s = (if s = [] then None else digits_acc 0 s)"

definition py_int :: "string \<Rightarrow> int option" where
  "py_int s =
     (case strip s of
        [] \<Rightarrow> None
      | c # cs \<Rightarrow>
          if c = CHR ''-'' then map_option uminus (unsigned_int cs)
          else if c = CHR ''+'' then unsigned_int cs
          else unsigned_int (c # cs))"

text \<open>
  A file is the list of its bytes, and the handle is opened in text mode, as by
  \<open>open(name, "r")\<close> in Python 3: \<open>readline\<close> and file iteration deliver the lines with
  every line ending (line feed, carriage return, or carriage return and line feed)
  turned into one line feed, and a last line without an ending as it is. Each line is
  paired with the number of bytes of the file that it took, which is what the position
  of the file moves by. The bytes are taken as they are for the characters (ASCII
  text).
\<close>

fun lines_acc :: "string \<Rightarrow> nat \<Rightarrow> string \<Rightarrow> (string \<times> nat) list" where
  "lines_acc cur taken [] = (if cur = [] then [] else [(rev cur, taken)])"
| "lines_acc cur taken [c] =
     (if c = CHR 0x0A \<or> c = CHR 0x0D then [(rev (CHR 0x0A # cur), taken + 1)]
      else [(rev (c # cur), taken + 1)])"
| "lines_acc cur taken (c # d # cs) =
     (if c = CHR 0x0D \<and> d = CHR 0x0A
      then (rev (CHR 0x0A # cur), taken + 2) # lines_acc [] 0 cs
      else if c = CHR 0x0A \<or> c = CHR 0x0D
      then (rev (CHR 0x0A # cur), taken + 1) # lines_acc [] 0 (d # cs)
      else lines_acc (c # cur) (taken + 1) (d # cs))"

definition file_lines :: "string \<Rightarrow> (string \<times> nat) list" where
  "file_lines bytes = lines_acc [] 0 bytes"

definition readlines :: "string \<Rightarrow> string list" where
  "readlines bytes = map fst (file_lines bytes)"

section \<open>Errors\<close>

text \<open>
  Every \<open>raise\<close> of the module raises a \<open>ValueError\<close>; \<^typ>\<open>string\<close> arguments are
  left out of the messages. The other constructors are the built-in exceptions that
  the module's expressions can raise.
\<close>

datatype value_error =
    SLineNot7Fields             \<comment> \<open>"Error parsing alignment - 's' line must have 7 fields"\<close>
  | DotInFirstSequence          \<comment> \<open>"Found dot/period in first sequence of alignment"\<close>
  | UnexpectedLine              \<comment> \<open>"Error parsing alignment - unexpected line"\<close>
  | InvalidKeyInALine           \<comment> \<open>"Error parsing alignment - invalid key in 'a' line"\<close>
  | InvalidLiteralForInt        \<comment> \<open>raised by \<open>int\<close>\<close>
  | DictUpdateSequenceLength    \<comment> \<open>raised by \<open>dict\<close> on an element that is not a pair\<close>
  | SequencesNotSameLength      \<comment> \<open>raised by \<open>MultipleSeqAlignment\<close>\<close>
  | NegativeSeekPosition        \<comment> \<open>raised by \<open>seek\<close>\<close>
  | IndexVersionIncompatible    \<comment> \<open>"Index version (...) incompatible with this version of MafIndex"\<close>
  | IndexUsesDifferentFile      \<comment> \<open>"Index uses a different file (...)"\<close>
  | IndexedForOtherTarget       \<comment> \<open>"Provided database indexed for ..., expected ..."\<close>
  | UnfinishedDatabase          \<comment> \<open>"Unfinished/partial database provided"\<close>
  | RecordCountMismatch         \<comment> \<open>"Expected ... records, found ....  Corrupt index?"\<close>
  | ProblemWithSQLite           \<comment> \<open>"Problem with SQLite database: ..."\<close>
  | TargetNotFoundInBundle      \<comment> \<open>"Target for indexing (...) not found in this bundle"\<close>
  | InvalidTargetLength         \<comment> \<open>"Invalid length for target coordinates (...)"\<close>
  | StartsEndsMismatch          \<comment> \<open>"Every position in starts must have a match in ends"\<close>
  | ExonCoordinatesInvalid      \<comment> \<open>"Exon coordinates (...) invalid: exon length (...) < 1"\<close>
  | UnexpectedRecord            \<comment> \<open>"Expected ...-... @ offset ..., found ...-..."\<close>
  | StrandArgumentInvalid       \<comment> \<open>"Strand must be 1 or -1, got ..."\<close>
  | StrandMustBe1OrMinus1       \<comment> \<open>"Strand must be 1 or -1"\<close>
  | StrandDisagreement          \<comment> \<open>"Encountered strand='...' on target seqname, expected '...'"\<close>
  | NoStrandInformation         \<comment> \<open>"No strand information for target seqname (...)"\<close>
  | TargetNotInAlignment        \<comment> \<open>"Did not find ... in alignment bundle"\<close>
  | PositionCountMismatch       \<comment> \<open>"Target seqname (...) has ... records, expected ..."\<close>
  | LetterCountMismatch         \<comment> \<open>"Returning ... letters for target seqname (...), expected ..."\<close>
  | ReturnedLengthMismatch      \<comment> \<open>"Returning length ... for ..., expected ..."\<close>

datatype error =
    ValueError value_error
  | TypeError
  | KeyError
  | IndexError
  | AssertionError
  | StopIteration
  | UnboundLocalError
  | OperationalError            \<comment> \<open>the \<open>sqlite3\<close> exception\<close>

section \<open>Sequence records and alignment blocks\<close>

text \<open>
  A \<open>SeqRecord\<close> as this module builds and reads it: the sequence text, the \<open>id\<close>, the
  \<open>name\<close> and \<open>description\<close> arguments (\<open>None\<close> where the constructor is called without
  them), and the \<open>annotations\<close> dictionary, whose values are integers here.
\<close>

record seqrecord =
  seq :: string
  rec_id :: string
  name :: "string option"
  description :: "string option"
  annotations :: "(string \<times> int) list"

text \<open>
  A \<open>MultipleSeqAlignment\<close> with the private \<open>_annotations\<close> the parser attaches to it.
\<close>

record alignment =
  records :: "seqrecord list"
  aln_annotations :: "(string \<times> string) list"

text \<open>
  Modelled from the spec: the constructor \<open>MultipleSeqAlignment(records, alphabet)\<close> of
  \<open>Bio.Align\<close>, which is not among the sources. The spec's data model has an alignment
  block as "an ordered list of SequenceRecords of equal aligned (gapped) length"; the
  constructor refuses records of different lengths with a \<open>ValueError\<close>.
\<close>

definition MultipleSeqAlignment :: "seqrecord list \<Rightarrow> error + seqrecord list" where
  "MultipleSeqAlignment recs =
     (case recs of
        [] \<Rightarrow> Inr []
      | r # rs \<Rightarrow>
          if \<forall>x \<in> set rs. length (seq x) = length (seq r) then Inr recs
          else Inl (ValueError SequencesNotSameLength))"

section \<open>MafIterator\<close>

text \<open>The local variables of the generator that live across lines.\<close>

record pstate =
  in_a_bundle :: bool
  bundle_annotations :: "(string \<times> string) list"
  bundle_records :: "seqrecord list"

definition initial_pstate :: pstate where
  "initial_pstate = \<lparr>in_a_bundle = False, bundle_annotations = [], bundle_records = []\<rparr>"

text \<open>
  What one round of the \<open>while True\<close> loop does after it has read \<open>line\<close>: it goes on
  with a new state, yields an alignment (and goes on with a new state when resumed), or
  leaves the loop.
\<close>

datatype outcome = Continue pstate | Yield alignment pstate | Stop

definition int_or_raise :: "string \<Rightarrow> error + int" where
  "int_or_raise s =
     (case py_int s of None \<Rightarrow> Inl (ValueError InvalidLiteralForInt) | Some i \<Rightarrow> Inr i)"

text \<open>The conversion of the MAF strand field: anything but \<open>+\<close> and \<open>-\<close> gives 1.\<close>

definition strand_of_field :: "string \<Rightarrow> int" where
  "strand_of_field f = (if f = ''+'' then 1 else if f = ''-'' then - 1 else 1)"

text \<open>
  The expansion of a dot: \<open>zip(sequence, ref)\<close> stops at the shorter of the two texts.
\<close>

definition expand_dots :: "string \<Rightarrow> string \<Rightarrow> string" where
  "expand_dots sequence ref =
     map (\<lambda>(letter, ref_letter). if letter = CHR ''.'' then ref_letter else letter)
       (zip sequence ref)"

text \<open>The branch of a line that starts with \<open>s\<close> inside a bundle.\<close>

definition s_line :: "pstate \<Rightarrow> string \<Rightarrow> error + pstate" where
  "s_line st line =
     (let line_split = split (strip line) in
      if length line_split \<noteq> 7 then Inl (ValueError SLineNot7Fields)
      else
        let strand = strand_of_field (line_split ! 4) in
        (case int_or_raise (line_split ! 2) of Inl e \<Rightarrow> Inl e | Inr start_v \<Rightarrow>
        (case int_or_raise (line_split ! 3) of Inl e \<Rightarrow> Inl e | Inr size_v \<Rightarrow>
        (case int_or_raise (line_split ! 5) of Inl e \<Rightarrow> Inl e | Inr srcSize_v \<Rightarrow>
          let anno = [(''start'', start_v), (''size'', size_v), (''strand'', strand),
                      (''srcSize'', srcSize_v)];
              sequence = line_split ! 6
          in
          (case (if CHR ''.'' \<in> set sequence then
                   (case bundle_records st of
                      [] \<Rightarrow> Inl (ValueError DotInFirstSequence)
                    | r # _ \<Rightarrow> Inr (expand_dots sequence (seq r)))
                 else Inr sequence) of
             Inl e \<Rightarrow> Inl e
           | Inr sequence' \<Rightarrow>
               Inr (st\<lparr>bundle_records := bundle_records st @
                      [\<lparr>seq = sequence', rec_id = line_split ! 1, name = Some (line_split ! 1),
                        description = Some [], annotations = anno\<rparr>]\<rparr>))))))"

text \<open>
  The \<open>a\<close> line that starts a bundle: the tokens after the first must be as many as the
  \<open>=\<close> signs of the line, and \<open>dict\<close> needs every token to split into exactly two parts.
\<close>

fun dict_of_pairs :: "(string \<times> string) list \<Rightarrow> string list list \<Rightarrow> error + (string \<times> string) list" where
  "dict_of_pairs d [] = Inr d"
| "dict_of_pairs d (p # ps) =
     (if length p = 2 then dict_of_pairs (AList.update (p ! 0) (p ! 1) d) ps
      else Inl (ValueError DictUpdateSequenceLength))"

definition a_line :: "pstate \<Rightarrow> string \<Rightarrow> error + pstate" where
  "a_line st line =
     (let annot_strings = tl (split (strip line)) in
      if length annot_strings \<noteq> count_char CHR ''='' line
      then Inl (ValueError InvalidKeyInALine)
      else case dict_of_pairs [] (map (split_on CHR ''='') annot_strings) of
             Inl e \<Rightarrow> Inl e
           | Inr d \<Rightarrow> Inr (st\<lparr>in_a_bundle := True, bundle_annotations := d\<rparr>))"

text \<open>The end of a bundle: the optional \<open>seq_count\<close> assertion, then the alignment.\<close>

definition end_bundle :: "nat option \<Rightarrow> pstate \<Rightarrow> error + outcome" where
  "end_bundle seq_count st =
     (if seq_count \<noteq> None \<and> Some (length (bundle_records st)) \<noteq> seq_count
      then Inl AssertionError
      else case MultipleSeqAlignment (bundle_records st) of
             Inl e \<Rightarrow> Inl e
           | Inr recs \<Rightarrow>
               Inr (Yield \<lparr>records = recs, aln_annotations = bundle_annotations st\<rparr>
                      \<lparr>in_a_bundle = False, bundle_annotations = [], bundle_records = []\<rparr>))"

text \<open>
  One round of the loop, in the order of the source's \<open>if\<close>/\<open>elif\<close> chain. Outside a
  bundle a line that matches no branch is passed over.
\<close>

definition process_line :: "nat option \<Rightarrow> pstate \<Rightarrow> string \<Rightarrow> error + outcome" where
  "process_line seq_count st line =
     (if in_a_bundle st then
        if startswith line ''s'' then
          (case s_line st line of Inl e \<Rightarrow> Inl e | Inr st' \<Rightarrow> Inr (Continue st'))
        else if startswith line ''i'' then Inr (Continue st)
        else if startswith line ''e'' then Inr (Continue st)
        else if startswith line ''q'' then Inr (Continue st)
        else if startswith line ''#'' then Inr (Continue st)
        else if strip line = [] then end_bundle seq_count st
        else Inl (ValueError UnexpectedLine)
      else if startswith line ''a'' then
        (case a_line st line of Inl e \<Rightarrow> Inl e | Inr st' \<Rightarrow> Inr (Continue st'))
      else if startswith line ''#'' then Inr (Continue st)
      else if line = [] then Inr Stop
      else Inr (Continue st))"

text \<open>
  \<open>next\<close> on the generator, with the lines that the handle still has to deliver: the
  loop runs until it yields or stops. When the handle is exhausted the line is the empty
  string, on which a round never goes on (lemma \<open>process_line_empty\<close> below), so the loop
  ends there. The result is the alignment with the state and lines left, or \<open>None\<close> when
  the generator is finished.
\<close>

fun maf_next :: "nat option \<Rightarrow> pstate \<Rightarrow> string list \<Rightarrow> error + (alignment \<times> pstate \<times> string list) option" where
  "maf_next seq_count st [] =
     (case process_line seq_count st [] of
        Inl e \<Rightarrow> Inl e
      | Inr (Yield a st') \<Rightarrow> Inr (Some (a, st', []))
      | Inr _ \<Rightarrow> Inr None)"
| "maf_next seq_count st (line # rest) =
     (case process_line seq_count st line of
        Inl e \<Rightarrow> Inl e
      | Inr (Continue st') \<Rightarrow> maf_next seq_count st' rest
      | Inr (Yield a st') \<Rightarrow> Inr (Some (a, st', rest))
      | Inr Stop \<Rightarrow> Inr None)"

text \<open>
  The whole iteration \<open>list(MafIterator(handle))\<close>: the alignments yielded, and the error
  that ended the iteration if one did. After the handle is exhausted at most two more
  rounds run (the last bundle, then the \<open>break\<close>), which is the fuel of the last phase.
\<close>

fun maf_all :: "nat option \<Rightarrow> pstate \<Rightarrow> string list \<Rightarrow> alignment list \<times> error option" where
  "maf_all seq_count st [] =
     (case process_line seq_count st [] of
        Inl e \<Rightarrow> ([], Some e)
      | Inr (Yield a st') \<Rightarrow>
          (case process_line seq_count st' [] of
             Inl e \<Rightarrow> ([a], Some e)
           | Inr _ \<Rightarrow> ([a], None))
      | Inr _ \<Rightarrow> ([], None))"
| "maf_all seq_count st (line # rest) =
     (case process_line seq_count st line of
        Inl e \<Rightarrow> ([], Some e)
      | Inr (Continue st') \<Rightarrow> maf_all seq_count st' rest
      | Inr (Yield a st') \<Rightarrow>
          (case maf_all seq_count st' rest of (as, err) \<Rightarrow> (a # as, err))
      | Inr Stop \<Rightarrow> ([], None))"

definition MafIterator :: "string \<Rightarrow> nat option \<Rightarrow> alignment list \<times> error option" where
  "MafIterator bytes seq_count = maf_all seq_count initial_pstate (readlines bytes)"

section \<open>MafIndex: the index and its builder\<close>

text \<open>
  A row of the table \<open>offset_data\<close> is \<open>(bin, start, end, offset)\<close>. The table \<open>meta_data\<close>
  has the columns \<open>key\<close> and \<open>value\<close>, both text. A table that the database does not
  have is \<open>None\<close>: a statement on it raises \<open>sqlite3.OperationalError\<close>.
\<close>

type_synonym index_entry = "int \<times> int \<times> int \<times> int"

record database =
  meta_data :: "(string \<times> string) list option"
  offset_data :: "index_entry list option"

definition MAFINDEX_VERSION :: int where
  "MAFINDEX_VERSION = 1"

text \<open>
  The attributes of a \<open>MafIndex\<close> object: \<open>_target_seqname\<close>, \<open>_maf_file\<close> (the file
  name), the bytes of the file behind \<open>_maf_fp\<close>, and the database behind \<open>_db_con\<close>.
\<close>

record maf_index =
  target_seqname :: string
  maf_file :: string
  maf_text :: string
  db_con :: database

text \<open>\<open>xs[i]\<close> on a list, for an index that is not negative.\<close>

definition item :: "'a list \<Rightarrow> nat \<Rightarrow> error + 'a" where
  "item xs i = (if i < length xs then Inr (xs ! i) else Inl IndexError)"

text \<open>
  \<open>__maf_indexer\<close>, the part that runs on the \<open>s\<close> line of the target: the fields
  \<open>start\<close> and \<open>size\<close> are converted, the size is compared with the number of symbols
  of the text that are not \<open>-\<close>, and the entry is made for the inclusive end
  \<open>start + size - 1\<close>.
\<close>

definition target_entry :: "string list \<Rightarrow> int \<Rightarrow> error + index_entry" where
  "target_entry line_split offset =
     (case item line_split 2 of Inl e \<Rightarrow> Inl e | Inr f2 \<Rightarrow>
     (case int_or_raise f2 of Inl e \<Rightarrow> Inl e | Inr start_v \<Rightarrow>
     (case item line_split 3 of Inl e \<Rightarrow> Inl e | Inr f3 \<Rightarrow>
     (case int_or_raise f3 of Inl e \<Rightarrow> Inl e | Inr size_v \<Rightarrow>
     (case item line_split 6 of Inl e \<Rightarrow> Inl e | Inr f6 \<Rightarrow>
        if size_v \<noteq> int (length (remove_char CHR ''-'' f6))
        then Inl (ValueError InvalidTargetLength)
        else
          let end_v = start_v + size_v - 1
          in Inr (ucscbin start_v (end_v + 1), start_v, end_v, offset))))))"

text \<open>
  \<open>__maf_indexer\<close> is a generator with two nested loops over \<open>readline\<close>. The model runs
  over the lines that are left, each with the number of bytes it takes, with the
  position \<open>pos\<close> of the file before the first of them, and is in one of two places: in
  the outer loop, or in the inner loop of a bundle for which \<open>offset\<close> was noted. After a
  \<open>readline\<close> the position \<open>tell()\<close> is \<open>pos\<close> plus the bytes taken, and \<open>len(line)\<close> is the
  number of characters of the line delivered. At the end of the file \<open>readline\<close> returns
  the empty string, which ends the outer loop and is a blank line for the inner one.
  The result is the list of the entries yielded and the error that ended the
  generator, if one did.
\<close>

datatype scan = Outer | Inner int

fun maf_indexer_loop :: "string \<Rightarrow> scan \<Rightarrow> nat \<Rightarrow> (string \<times> nat) list
    \<Rightarrow> index_entry list \<times> error option" where
  "maf_indexer_loop target Outer pos [] = ([], None)"
| "maf_indexer_loop target Outer pos ((line, taken) # rest) =
     (let tell = pos + taken in
      if startswith line ''a''
      then maf_indexer_loop target (Inner (int tell - int (length line))) tell rest
      else maf_indexer_loop target Outer tell rest)"
| "maf_indexer_loop target (Inner offset) pos [] =
     ([], Some (ValueError TargetNotFoundInBundle))"
| "maf_indexer_loop target (Inner offset) pos ((line, taken) # rest) =
     (let tell = pos + taken in
      if strip line = [] \<or> startswith line ''a''
      then ([], Some (ValueError TargetNotFoundInBundle))
      else if startswith line ''s'' then
        (let line_split = split (strip line) in
         case item line_split 1 of
           Inl e \<Rightarrow> ([], Some e)
         | Inr src \<Rightarrow>
             if src = target then
               (case target_entry line_split offset of
                  Inl e \<Rightarrow> ([], Some e)
                | Inr entry \<Rightarrow>
                    (case maf_indexer_loop target Outer tell rest of
                       (entries, err) \<Rightarrow> (entry # entries, err)))
             else maf_indexer_loop target (Inner offset) tell rest)
      else maf_indexer_loop target (Inner offset) tell rest)"

definition maf_indexer :: "string \<Rightarrow> string \<Rightarrow> index_entry list \<times> error option" where
  "maf_indexer bytes target = maf_indexer_loop target Outer 0 (file_lines bytes)"

text \<open>
  \<open>__check_existing_db\<close>. A \<open>SELECT value FROM meta_data WHERE key = ...\<close> followed by
  \<open>fetchone()[0]\<close> gives the value of the first row with that key; without such a row
  \<open>fetchone()\<close> is \<open>None\<close> and the subscript raises \<open>TypeError\<close>.
\<close>

definition select_value :: "database \<Rightarrow> string \<Rightarrow> error + string" where
  "select_value db k =
     (case meta_data db of
        None \<Rightarrow> Inl OperationalError
      | Some rows \<Rightarrow> (case map_of rows k of None \<Rightarrow> Inl TypeError | Some v \<Rightarrow> Inr v))"

definition count_offset_data :: "database \<Rightarrow> error + int" where
  "count_offset_data db =
     (case offset_data db of None \<Rightarrow> Inl OperationalError | Some rows \<Rightarrow> Inr (int (length rows)))"

text \<open>The body of the \<open>try\<close> statement.\<close>

definition check_existing_db_try :: "database \<Rightarrow> string \<Rightarrow> string \<Rightarrow> error + int" where
  "check_existing_db_try db the_maf_file the_target_seqname =
     (case select_value db ''version'' of Inl e \<Rightarrow> Inl e | Inr v \<Rightarrow>
     (case int_or_raise v of Inl e \<Rightarrow> Inl e | Inr idx_version \<Rightarrow>
        if idx_version \<noteq> MAFINDEX_VERSION then Inl (ValueError IndexVersionIncompatible)
        else
     (case select_value db ''filename'' of Inl e \<Rightarrow> Inl e | Inr filename \<Rightarrow>
        if filename \<noteq> the_maf_file then Inl (ValueError IndexUsesDifferentFile)
        else
     (case select_value db ''target_seqname'' of Inl e \<Rightarrow> Inl e | Inr db_target \<Rightarrow>
        if db_target \<noteq> the_target_seqname then Inl (ValueError IndexedForOtherTarget)
        else
     (case select_value db ''record_count'' of Inl e \<Rightarrow> Inl e | Inr c \<Rightarrow>
     (case int_or_raise c of Inl e \<Rightarrow> Inl e | Inr the_record_count \<Rightarrow>
        if the_record_count = - 1 then Inl (ValueError UnfinishedDatabase)
        else
     (case count_offset_data db of Inl e \<Rightarrow> Inl e | Inr records_found \<Rightarrow>
        if records_found \<noteq> the_record_count then Inl (ValueError RecordCountMismatch)
        else Inr records_found)))))))"

text \<open>
  The \<open>except\<close> clause turns the exceptions of \<open>sqlite3\<close> into a \<open>ValueError\<close>; every
  other exception passes.
\<close>

definition check_existing_db :: "database \<Rightarrow> string \<Rightarrow> string \<Rightarrow> error + int" where
  "check_existing_db db the_maf_file the_target_seqname =
     (case check_existing_db_try db the_maf_file the_target_seqname of
        Inl OperationalError \<Rightarrow> Inl (ValueError ProblemWithSQLite)
      | r \<Rightarrow> r)"

section \<open>MafIndex.search\<close>

text \<open>
  \<open>_get_record(offset)\<close>: the file is positioned at the byte \<open>offset\<close> and \<open>next\<close> is called on the
  generator \<open>_mafiter\<close>. The generator is taken to be alive, as it is after the
  construction of the index and after every record it has yielded; it is then at the
  head of its loop with the initial values of its variables. A negative position is
  refused by \<open>seek\<close>, and a generator that finishes without yielding makes \<open>next\<close> raise
  \<open>StopIteration\<close>. Raised inside the generator \<open>search\<close>, this exception ends \<open>search\<close>
  with an error, as it does from Python 3.7 on (where it reaches the caller as a
  \<open>RuntimeError\<close>).
\<close>

definition get_record :: "string \<Rightarrow> int \<Rightarrow> error + alignment" where
  "get_record bytes offset =
     (if offset < 0 then Inl (ValueError NegativeSeekPosition)
      else case maf_next None initial_pstate (readlines (drop (nat offset) bytes)) of
             Inl e \<Rightarrow> Inl e
           | Inr None \<Rightarrow> Inl StopIteration
           | Inr (Some (a, _)) \<Rightarrow> Inr a)"

text \<open>
  The \<open>SELECT DISTINCT start, end, offset FROM offset_data WHERE bin IN (...) AND (end
  BETWEEN exonstart AND exonend - 1 OR exonend - 1 BETWEEN start AND end) ORDER BY
  start, end, offset ASC\<close> of \<open>search\<close>. Triples of integers are ordered
  lexicographically.
\<close>

definition overlaps :: "int \<Rightarrow> int \<Rightarrow> int \<Rightarrow> int \<Rightarrow> bool" where
  "overlaps exonstart exonend start_v end_v \<longleftrightarrow>
     (exonstart \<le> end_v \<and> end_v \<le> exonend - 1)
     \<or> (start_v \<le> exonend - 1 \<and> exonend - 1 \<le> end_v)"

definition row_matches :: "int \<Rightarrow> int \<Rightarrow> index_entry \<Rightarrow> bool" where
  "row_matches exonstart exonend row =
     (case row of (bin, start_v, end_v, offset) \<Rightarrow>
        bin \<in> region2bin exonstart exonend \<and> overlaps exonstart exonend start_v end_v)"

definition select_rows :: "index_entry list \<Rightarrow> int \<Rightarrow> int \<Rightarrow> (int \<times> int \<times> int) list" where
  "select_rows rows exonstart exonend =
     sort (remdups (map (\<lambda>(bin, start_v, end_v, offset). (start_v, end_v, offset))
                      (filter (row_matches exonstart exonend) rows)))"

text \<open>
  The check of a fetched alignment against the row: every record with the target's id
  must have the row's start and inclusive end.
\<close>

definition lookup :: "('k \<times> 'v) list \<Rightarrow> 'k \<Rightarrow> error + 'v" where
  "lookup d k = (case map_of d k of None \<Rightarrow> Inl KeyError | Some v \<Rightarrow> Inr v)"

fun check_fetched :: "string \<Rightarrow> int \<Rightarrow> int \<Rightarrow> seqrecord list \<Rightarrow> error option" where
  "check_fetched target rec_start rec_end [] = None"
| "check_fetched target rec_start rec_end (r # rs) =
     (if rec_id r = target then
        (case lookup (annotations r) ''start'' of Inl e \<Rightarrow> Some e | Inr start_v \<Rightarrow>
        (case lookup (annotations r) ''size'' of Inl e \<Rightarrow> Some e | Inr size_v \<Rightarrow>
           let end_v = start_v + size_v - 1 in
           if \<not> (start_v = rec_start \<and> end_v = rec_end) then Some (ValueError UnexpectedRecord)
           else check_fetched target rec_start rec_end rs))
      else check_fetched target rec_start rec_end rs)"

text \<open>
  The loop over the rows of one query, and the loop over the exons. \<open>search\<close> is a
  generator: the result is the list of the alignments yielded and the error that ended
  the generator, if one did.
\<close>

fun fetch_rows :: "maf_index \<Rightarrow> (int \<times> int \<times> int) list \<Rightarrow> alignment list \<times> error option" where
  "fetch_rows idx [] = ([], None)"
| "fetch_rows idx ((rec_start, rec_end, offset) # rows) =
     (case get_record (maf_text idx) offset of
        Inl e \<Rightarrow> ([], Some e)
      | Inr fetched \<Rightarrow>
          (case check_fetched (target_seqname idx) rec_start rec_end (records fetched) of
             Some e \<Rightarrow> ([], Some e)
           | None \<Rightarrow> (case fetch_rows idx rows of (as, err) \<Rightarrow> (fetched # as, err))))"

fun search_exons :: "maf_index \<Rightarrow> (int \<times> int) list \<Rightarrow> alignment list \<times> error option" where
  "search_exons idx [] = ([], None)"
| "search_exons idx ((exonstart, exonend) # exons) =
     (case offset_data (db_con idx) of
        None \<Rightarrow> ([], Some OperationalError)
      | Some rows \<Rightarrow>
          (case fetch_rows idx (select_rows rows exonstart exonend) of
             (as, Some e) \<Rightarrow> (as, Some e)
           | (as, None) \<Rightarrow>
               (case search_exons idx exons of (bs, err) \<Rightarrow> (as @ bs, err))))"

definition search :: "maf_index \<Rightarrow> int list \<Rightarrow> int list \<Rightarrow> alignment list \<times> error option" where
  "search idx starts ends =
     (if length starts \<noteq> length ends then ([], Some (ValueError StartsEndsMismatch))
      else if \<exists>(exonstart, exonend) \<in> set (zip starts ends). exonend - exonstart < 1
      then ([], Some (ValueError ExonCoordinatesInvalid))
      else search_exons idx (zip starts ends))"

text \<open>
  The rows whose alignments \<open>search\<close> fetches, in the order in which it fetches them:
  the rows of the first exon's query, then those of the second, and so on.
\<close>

definition search_rows :: "index_entry list \<Rightarrow> int list \<Rightarrow> int list \<Rightarrow> (int \<times> int \<times> int) list" where
  "search_rows rows starts ends =
     concat (map (\<lambda>(exonstart, exonend). select_rows rows exonstart exonend) (zip starts ends))"

section \<open>MafIndex: splicing\<close>

text \<open>
  Modelled from the spec: \<open>Seq.reverse_complement\<close> of \<open>Bio.Seq\<close>, which is not among the
  sources. The spec has "reverse-complement every sequence's spliced text": the text is
  reversed and every symbol is replaced by its complement, by the table of the
  nucleotide codes in both cases; a symbol without an entry, such as the gap, stays.
\<close>

definition complement_table :: "(char \<times> char) list" where
  "complement_table =
     zip ''ACGTMRWSYKVHDBXN'' ''TGCAKYWSRMBDHVXN'' @ zip ''acgtmrwsykvhdbxn'' ''tgcakywsrmbdhvxn''"

definition complement :: "char \<Rightarrow> char" where
  "complement c = (case map_of complement_table c of None \<Rightarrow> c | Some d \<Rightarrow> d)"

definition reverse_complement :: "string \<Rightarrow> string" where
  "reverse_complement s = rev (map complement s)"

text \<open>
  The variables that the loop over the fetched alignments changes. \<open>split_by_position\<close>
  is a dictionary from sequence names to dictionaries from positions to texts; both
  are association lists in the order of insertion. \<open>track_val\<close> is \<open>None\<close> as long as the
  variable is not bound.
\<close>

type_synonym split_dict = "(string \<times> (int \<times> string) list) list"

record splice_state =
  split_by_position :: split_dict
  total_rec_length :: int
  ref_first_strand :: "int option"
  track_val :: "char option"

text \<open>
  The \<open>try\<close> statement on the strand of the target's record: a missing annotation is
  the \<open>KeyError\<close> that the \<open>except\<close> clause turns into a \<open>ValueError\<close>.
\<close>

definition check_strand :: "int option \<Rightarrow> seqrecord \<Rightarrow> error + int option" where
  "check_strand first_strand seqrec =
     (case map_of (annotations seqrec) ''strand'' of
        None \<Rightarrow> Inl (ValueError NoStrandInformation)
      | Some s \<Rightarrow>
          (case first_strand of
             None \<Rightarrow>
               if s \<noteq> 1 \<and> s \<noteq> - 1 then Inl (ValueError StrandMustBe1OrMinus1)
               else Inr (Some s)
           | Some f \<Rightarrow>
               if f \<noteq> s then Inl (ValueError StrandDisagreement) else Inr (Some f)))"

text \<open>
  \<open>split_by_position[seqrec.id][pos] = ""\<close> for the positions of the range, and the loop
  over the records of the alignment around it.
\<close>

fun blank_positions :: "split_dict \<Rightarrow> string \<Rightarrow> int list \<Rightarrow> error + split_dict" where
  "blank_positions sp sid [] = Inr sp"
| "blank_positions sp sid (pos # ps) =
     (case lookup sp sid of
        Inl e \<Rightarrow> Inl e
      | Inr d \<Rightarrow> blank_positions (AList.update sid (AList.update pos [] d) sp) sid ps)"

fun blank_records :: "split_dict \<Rightarrow> seqrecord list \<Rightarrow> int list \<Rightarrow> error + split_dict" where
  "blank_records sp [] ps = Inr sp"
| "blank_records sp (r # rs) ps =
     (case blank_positions sp (rec_id r) ps of
        Inl e \<Rightarrow> Inl e
      | Inr sp' \<Rightarrow> blank_records sp' rs ps)"

text \<open>
  One column of the alignment: for every record, \<open>track_val\<close> is set if the record has
  the target's id, and the symbol of the column is appended to the text at \<open>real_pos\<close>.
  The dictionary entry is read before the symbol.
\<close>

fun column_records :: "string \<Rightarrow> nat \<Rightarrow> int \<Rightarrow> seqrecord list \<Rightarrow> split_dict \<times> char option
    \<Rightarrow> error + (split_dict \<times> char option)" where
  "column_records target gapped_pos real_pos [] st = Inr st"
| "column_records target gapped_pos real_pos (r # rs) (sp, tv) =
     (case (if rec_id r = target
            then (case item (seq r) gapped_pos of Inl e \<Rightarrow> Inl e | Inr c \<Rightarrow> Inr (Some c))
            else Inr tv) of
        Inl e \<Rightarrow> Inl e
      | Inr tv' \<Rightarrow>
         (case lookup sp (rec_id r) of Inl e \<Rightarrow> Inl e | Inr d \<Rightarrow>
         (case lookup d real_pos of Inl e \<Rightarrow> Inl e | Inr fragment \<Rightarrow>
         (case item (seq r) gapped_pos of Inl e \<Rightarrow> Inl e | Inr c \<Rightarrow>
            column_records target gapped_pos real_pos rs
              (AList.update (rec_id r) (AList.update real_pos (fragment @ [c]) d) sp, tv')))))"

text \<open>
  The loop over the columns: \<open>real_pos\<close> moves on after a column in which the target
  has no gap, unless it has reached \<open>rec_end\<close>.
\<close>

fun columns :: "string \<Rightarrow> seqrecord list \<Rightarrow> int \<Rightarrow> nat list \<Rightarrow> int \<Rightarrow> split_dict \<times> char option
    \<Rightarrow> error + (split_dict \<times> char option)" where
  "columns target recs rec_end [] real_pos st = Inr st"
| "columns target recs rec_end (gapped_pos # gs) real_pos st =
     (case column_records target gapped_pos real_pos recs st of
        Inl e \<Rightarrow> Inl e
      | Inr (sp, tv) \<Rightarrow>
          (case tv of
             None \<Rightarrow> Inl UnboundLocalError
           | Some t \<Rightarrow>
               columns target recs rec_end gs
                 (if t \<noteq> CHR ''-'' \<and> real_pos < rec_end then real_pos + 1 else real_pos)
                 (sp, tv)))"

text \<open>The body of the loop over the fetched alignments.\<close>

definition splice_block :: "string \<Rightarrow> splice_state \<Rightarrow> alignment \<Rightarrow> error + splice_state" where
  "splice_block target st multiseq =
     (case find (\<lambda>r. rec_id r = target) (records multiseq) of
        None \<Rightarrow> Inl (ValueError TargetNotInAlignment)
      | Some seqrec \<Rightarrow>
         (case check_strand (ref_first_strand st) seqrec of Inl e \<Rightarrow> Inl e | Inr first_strand \<Rightarrow>
         (case lookup (annotations seqrec) ''start'' of Inl e \<Rightarrow> Inl e | Inr rec_start \<Rightarrow>
         (case lookup (annotations seqrec) ''size'' of Inl e \<Rightarrow> Inl e | Inr ungapped_length \<Rightarrow>
            let rec_length = length (seq seqrec);
                rec_end = rec_start + ungapped_length - 1
            in
            (case blank_records (split_by_position st) (records multiseq)
                    (py_range rec_start (rec_end + 1)) of
               Inl e \<Rightarrow> Inl e
             | Inr sp \<Rightarrow>
                 (case columns target (records multiseq) rec_end [0 ..< rec_length] rec_start
                         (sp, track_val st) of
                    Inl e \<Rightarrow> Inl e
                  | Inr (sp', tv) \<Rightarrow>
                      Inr \<lparr>split_by_position = sp',
                           total_rec_length = total_rec_length st + ungapped_length,
                           ref_first_strand = first_strand,
                           track_val = tv\<rparr>))))))"

fun splice_blocks :: "string \<Rightarrow> splice_state \<Rightarrow> alignment list \<Rightarrow> error + splice_state" where
  "splice_blocks target st [] = Inr st"
| "splice_blocks target st (multiseq # rest) =
     (case splice_block target st multiseq of
        Inl e \<Rightarrow> Inl e
      | Inr st' \<Rightarrow> splice_blocks target st' rest)"

text \<open>
  The names of all sequences of the fetched alignments. The source has a set here, and
  the order in which Python goes through it is not determined; the model takes the
  names in the order of their last occurrence.
\<close>

definition all_seqnames :: "alignment list \<Rightarrow> string list" where
  "all_seqnames fetched = remdups (concat (map (\<lambda>multiseq. map rec_id (records multiseq)) fetched))"

text \<open>
  The text of one sequence over the exons: the stored text of a position, or filler as
  long as the target's text there, or one filler symbol.
\<close>

definition splice_position :: "char \<Rightarrow> (int \<times> string) list \<Rightarrow> (int \<times> nat) list \<Rightarrow> int \<Rightarrow> string" where
  "splice_position filler_char seq_split realpos_to_len real_pos =
     (case map_of seq_split real_pos of
        Some fragment \<Rightarrow> fragment
      | None \<Rightarrow>
          (case map_of realpos_to_len real_pos of
             Some n \<Rightarrow> replicate n filler_char
           | None \<Rightarrow> [filler_char]))"

definition splice_seq :: "string \<Rightarrow> string \<Rightarrow> (int \<times> string) list \<Rightarrow> (int \<times> nat) list
    \<Rightarrow> (int \<times> int) list \<Rightarrow> string" where
  "splice_seq target seqid seq_split realpos_to_len exons =
     (let filler_char = (if seqid = target then CHR ''N'' else CHR ''-'')
      in concat (map (\<lambda>(exonstart, exonend).
                   concat (map (splice_position filler_char seq_split realpos_to_len)
                             (py_range exonstart exonend)))
                 exons))"

fun splice_all :: "string \<Rightarrow> split_dict \<Rightarrow> (int \<times> nat) list \<Rightarrow> (int \<times> int) list \<Rightarrow> string list
    \<Rightarrow> error + (string \<times> string) list" where
  "splice_all target sp realpos_to_len exons [] = Inr []"
| "splice_all target sp realpos_to_len exons (seqid # seqids) =
     (case lookup sp seqid of
        Inl e \<Rightarrow> Inl e
      | Inr seq_split \<Rightarrow>
          (case splice_all target sp realpos_to_len exons seqids of
             Inl e \<Rightarrow> Inl e
           | Inr subseq \<Rightarrow>
               Inr ((seqid, splice_seq target seqid seq_split realpos_to_len exons) # subseq)))"

text \<open>
  From the fetched alignments to the dictionary \<open>subseq\<close> of the spliced texts, with the
  strand of the target in the first alignment.
\<close>

definition spliced_texts :: "string \<Rightarrow> alignment list \<Rightarrow> (int \<times> int) list
    \<Rightarrow> error + (int option \<times> (string \<times> string) list)" where
  "spliced_texts target fetched exons =
     (let names = all_seqnames fetched in
      case splice_blocks target
             \<lparr>split_by_position = map (\<lambda>seq_name. (seq_name, [])) names,
              total_rec_length = 0, ref_first_strand = None, track_val = None\<rparr>
             fetched of
        Inl e \<Rightarrow> Inl e
      | Inr st \<Rightarrow>
         (case lookup (split_by_position st) target of Inl e \<Rightarrow> Inl e | Inr target_split \<Rightarrow>
            if int (length target_split) \<noteq> total_rec_length st
            then Inl (ValueError PositionCountMismatch)
            else
              let realpos_to_len =
                    map (\<lambda>(pos, gapped_fragment). (pos, length gapped_fragment))
                      (filter (\<lambda>(pos, gapped_fragment). length gapped_fragment > 1) target_split)
              in
              (case splice_all target (split_by_position st) realpos_to_len exons names of
                 Inl e \<Rightarrow> Inl e
               | Inr subseq \<Rightarrow> Inr (ref_first_strand st, subseq))))"

text \<open>
  The two checks on the spliced texts, and the records of the result: a text is
  reverse-complemented when the strand asked for is not the target's.
\<close>

definition checked_result :: "string \<Rightarrow> int \<Rightarrow> int \<Rightarrow> int option \<Rightarrow> (string \<times> string) list
    \<Rightarrow> error + seqrecord list" where
  "checked_result target strand expected_letters first_strand subseq =
     (case lookup subseq target of Inl e \<Rightarrow> Inl e | Inr target_seq \<Rightarrow>
        if int (length (remove_char CHR ''-'' target_seq)) \<noteq> expected_letters
        then Inl (ValueError LetterCountMismatch)
        else
          let ref_subseq_len = length target_seq in
          if \<exists>(seqid, sq) \<in> set subseq. length sq \<noteq> ref_subseq_len
          then Inl (ValueError ReturnedLengthMismatch)
          else
            MultipleSeqAlignment
              (map (\<lambda>(seqid, sq).
                      \<lparr>seq = (if Some strand = first_strand then sq else reverse_complement sq),
                       rec_id = seqid, name = Some seqid, description = Some [],
                       annotations = []\<rparr>)
                 subseq))"

definition get_spliced :: "maf_index \<Rightarrow> int list \<Rightarrow> int list \<Rightarrow> int \<Rightarrow> error + seqrecord list" where
  "get_spliced idx starts ends strand =
     (if strand \<noteq> 1 \<and> strand \<noteq> - 1 then Inl (ValueError StrandArgumentInvalid)
      else
        case search idx starts ends of
          (fetched, Some e) \<Rightarrow> Inl e
        | (fetched, None) \<Rightarrow>
            let expected_letters = sum_list (map (\<lambda>(start_v, end_v). end_v - start_v) (zip starts ends))
            in
            if length fetched = 0
            then MultipleSeqAlignment
                   [\<lparr>seq = replicate (nat expected_letters) CHR ''N'',
                     rec_id = target_seqname idx, name = None, description = None,
                     annotations = []\<rparr>]
            else
              (case spliced_texts (target_seqname idx) fetched (zip starts ends) of
                 Inl e \<Rightarrow> Inl e
               | Inr (first_strand, subseq) \<Rightarrow>
                   checked_result (target_seqname idx) strand expected_letters first_strand subseq))"

section \<open>Two small alignment files\<close>

text \<open>
  The concrete instances below run on these two files. The first has two bundles, the
  second one with an insertion relative to the target \<open>ref\<close>; its index rows are the ones
  that \<open>__maf_indexer\<close> yields for it (lemma \<open>maf_indexer_example\<close>). The second has one
  bundle with two records of the target.
\<close>

definition example_text :: string where
  "example_text =
     ''a score=1\<newline>'' @
     ''s ref 100 5 + 1000 ACGTA\<newline>'' @
     ''s alt 200 5 + 500 ACCTA\<newline>'' @
     ''\<newline>'' @
     ''a score=2\<newline>'' @
     ''s ref 110 5 + 1000 AC-GTA\<newline>'' @
     ''s alt 300 5 + 500 ACC-TA\<newline>'' @
     ''\<newline>''"

definition example_index :: maf_index where
  "example_index =
     \<lparr>target_seqname = ''ref'', maf_file = ''example.maf'', maf_text = example_text,
      db_con = \<lparr>meta_data = Some [(''version'', ''1''), (''record_count'', ''2''),
                                  (''target_seqname'', ''ref''), (''filename'', ''example.maf'')],
                offset_data = Some [(585, 100, 104, 0), (585, 110, 114, 60)]\<rparr>\<rparr>"

definition twice_text :: string where
  "twice_text =
     ''a score=1\<newline>'' @
     ''s ref 100 3 + 1000 ACG\<newline>'' @
     ''s ref 100 3 + 1000 ACG\<newline>'' @
     ''\<newline>''"

definition twice_index :: maf_index where
  "twice_index =
     \<lparr>target_seqname = ''ref'', maf_file = ''twice.maf'', maf_text = twice_text,
      db_con = \<lparr>meta_data = Some [(''version'', ''1''), (''record_count'', ''1''),
                                  (''target_seqname'', ''ref''), (''filename'', ''twice.maf'')],
                offset_data = Some [(585, 100, 102, 0)]\<rparr>\<rparr>"

text \<open>
  The first bundle of the first file with the line endings carriage return and line
  feed, and a file whose bundle has a record of the target without any symbol (size 0,
  a text of gaps), with the row that \<open>__maf_indexer\<close> yields for it.
\<close>

definition crlf_text :: string where
  "crlf_text =
     ''a score=1'' @ [CHR 0x0D, CHR 0x0A] @
     ''s ref 100 5 + 1000 ACGTA'' @ [CHR 0x0D, CHR 0x0A] @
     ''s alt 200 5 + 500 ACCTA'' @ [CHR 0x0D, CHR 0x0A] @
     [CHR 0x0D, CHR 0x0A]"

definition zero_text :: string where
  "zero_text =
     ''a score=1\<newline>'' @
     ''s ref 100 0 + 1000 ---\<newline>'' @
     ''s alt 200 3 + 500 ACG\<newline>'' @
     ''\<newline>''"

definition zero_index :: maf_index where
  "zero_index =
     \<lparr>target_seqname = ''ref'', maf_file = ''zero.maf'', maf_text = zero_text,
      db_con = \<lparr>meta_data = Some [(''version'', ''1''), (''record_count'', ''1''),
                                  (''target_seqname'', ''ref''), (''filename'', ''zero.maf'')],
                offset_data = Some [(585, 100, 99, 0)]\<rparr>\<rparr>"

text \<open>
  The alignments that the parser yields for the bundles of these files (lemmas
  \<open>search_example_two_exons\<close> and \<open>search_twice\<close>).
\<close>

definition example_block1 :: alignment where
  "example_block1 =
     \<lparr>records =
        [\<lparr>seq = ''ACGTA'', rec_id = ''ref'', name = Some ''ref'', description = Some [],
          annotations = [(''start'', 100), (''size'', 5), (''strand'', 1), (''srcSize'', 1000)]\<rparr>,
         \<lparr>seq = ''ACCTA'', rec_id = ''alt'', name = Some ''alt'', description = Some [],
          annotations = [(''start'', 200), (''size'', 5), (''strand'', 1), (''srcSize'', 500)]\<rparr>],
      aln_annotations = [(''score'', ''1'')]\<rparr>"

definition example_block2 :: alignment where
  "example_block2 =
     \<lparr>records =
        [\<lparr>seq = ''AC-GTA'', rec_id = ''ref'', name = Some ''ref'', description = Some [],
          annotations = [(''start'', 110), (''size'', 5), (''strand'', 1), (''srcSize'', 1000)]\<rparr>,
         \<lparr>seq = ''ACC-TA'', rec_id = ''alt'', name = Some ''alt'', description = Some [],
          annotations = [(''start'', 300), (''size'', 5), (''strand'', 1), (''srcSize'', 500)]\<rparr>],
      aln_annotations = [(''score'', ''2'')]\<rparr>"

definition twice_block :: alignment where
  "twice_block =
     \<lparr>records =
        [\<lparr>seq = ''ACG'', rec_id = ''ref'', name = Some ''ref'', description = Some [],
          annotations = [(''start'', 100), (''size'', 3), (''strand'', 1), (''srcSize'', 1000)]\<rparr>,
         \<lparr>seq = ''ACG'', rec_id = ''ref'', name = Some ''ref'', description = Some [],
          annotations = [(''start'', 100), (''size'', 3), (''strand'', 1), (''srcSize'', 1000)]\<rparr>],
      aln_annotations = [(''score'', ''1'')]\<rparr>"

definition zero_block :: alignment where
  "zero_block =
     \<lparr>records =
        [\<lparr>seq = ''---'', rec_id = ''ref'', name = Some ''ref'', description = Some [],
          annotations = [(''start'', 100), (''size'', 0), (''strand'', 1), (''srcSize'', 1000)]\<rparr>,
         \<lparr>seq = ''ACG'', rec_id = ''alt'', name = Some ''alt'', description = Some [],
          annotations = [(''start'', 200), (''size'', 3), (''strand'', 1), (''srcSize'', 500)]\<rparr>],
      aln_annotations = [(''score'', ''1'')]\<rparr>"

section \<open>Vocabulary of the statements\<close>

text \<open>
  A line that the builder's search for the target passes over inside a bundle: it is
  not blank, does not start with \<open>a\<close>, and if it starts with \<open>s\<close> it has a second field,
  which is not the target.
\<close>

definition passed_over :: "string \<Rightarrow> string \<Rightarrow> bool" where
  "passed_over target line \<longleftrightarrow>
     strip line \<noteq> [] \<and> \<not> startswith line ''a''
     \<and> (startswith line ''s'' \<longrightarrow>
          2 \<le> length (split (strip line)) \<and> split (strip line) ! 1 \<noteq> target)"

text \<open>
  What can be read from a store: the value of a metadata key (\<open>None\<close> without the table
  or without a row of that key), that value as an integer (\<open>None\<close> also when the text is
  not an integer), and the number of rows of the table \<open>offset_data\<close> (\<open>None\<close> without the
  table).
\<close>

definition stored_value :: "database \<Rightarrow> string \<Rightarrow> string option" where
  "stored_value db k = (case meta_data db of None \<Rightarrow> None | Some md \<Rightarrow> map_of md k)"

definition stored_int :: "database \<Rightarrow> string \<Rightarrow> int option" where
  "stored_int db k = (case stored_value db k of None \<Rightarrow> None | Some v \<Rightarrow> py_int v)"

definition stored_entries :: "database \<Rightarrow> int option" where
  "stored_entries db = (case offset_data db of None \<Rightarrow> None | Some rows \<Rightarrow> Some (int (length rows)))"

section \<open>Properties of the binning scheme\<close>

lemma shr_shr: "shr (shr x j) k = shr x (j + k)"
  by (simp add: shr_def add.commute)

lemma shr_mono: "x \<le> y \<Longrightarrow> shr x k \<le> shr y k"
  by (simp add: shr_def drop_bit_eq_div zdiv_mono1)

lemma shr_nonneg: "0 \<le> x \<Longrightarrow> 0 \<le> shr x k"
  by (simp add: shr_def)

lemma set_py_range: "set (py_range a b) = {a ..< b}"
  by (auto simp: py_range_def)

lemma shr_29_small:
  assumes "0 \<le> x" and "x < 2 ^ 30"
  shows "shr x 29 = 0 \<or> shr x 29 = 1"
proof -
  have "x \<le> 1073741823"
    using assms by simp
  then have "x div 536870912 \<le> 1073741823 div (536870912::int)"
    by (rule zdiv_mono1) simp
  then have "x div 2 ^ 29 \<le> 1"
    by simp
  moreover have "0 \<le> x div 2 ^ 29"
    using assms by simp
  ultimately show ?thesis
    by (auto simp: shr_def drop_bit_eq_div)
qed

lemma ucscbin_unfold:
  "ucscbin s e =
     (if shr s 17 = shr (e - 1) 17 then 585 + shr s 17
      else if shr s 20 = shr (e - 1) 20 then 73 + shr s 20
      else if shr s 23 = shr (e - 1) 23 then 9 + shr s 23
      else if shr s 26 = shr (e - 1) 26 then 1 + shr s 26
      else if shr s 29 = shr (e - 1) 29 then shr s 29
      else 0)"
  by (simp add: ucscbin_def bin_offsets_def bin_first_shift_def bin_next_shift_def shr_shr)

lemma region2bin_unfold:
  "region2bin s e =
     {0, 1} \<union> {1 + shr s 26 ..< 2 + shr (e - 1) 26}
     \<union> {9 + shr s 23 ..< 10 + shr (e - 1) 23}
     \<union> {73 + shr s 20 ..< 74 + shr (e - 1) 20}
     \<union> {585 + shr s 17 ..< 586 + shr (e - 1) 17}"
  by (auto simp: region2bin_def region2bin_list_def set_py_range)

text \<open>
  Below \<open>2 ^ 30\<close> the smallest bin is always among the candidate bins: at the four finer
  levels it is the first element of that level's range, and at the coarsest level it is
  0 or 1, which are always candidates.
\<close>

lemma ucscbin_in_region2bin_below_2_30:
  assumes "0 \<le> s" and "s < e" and "e \<le> 2 ^ 30"
  shows "ucscbin s e \<in> region2bin s e"
proof -
  have le: "s \<le> e - 1" using assms by simp
  have top: "shr s 29 = 0 \<or> shr s 29 = 1"
    using assms by (intro shr_29_small) auto
  show ?thesis
    unfolding ucscbin_unfold region2bin_unfold
    using shr_mono [OF le, of 17] shr_mono [OF le, of 20]
      shr_mono [OF le, of 23] shr_mono [OF le, of 26] top
    by auto
qed

text \<open>
  C1. The claim is that for every interval \<open>[s, e)\<close> with \<open>0 \<le> s < e\<close> the bin computed by
  \<open>_ucscbin(s, e)\<close> is a member of the set computed by \<open>_region2bin(s, e)\<close>. The code
  does not do this for an interval above \<open>2 ^ 30\<close> that crosses a multiple of \<open>2 ^ 26\<close>:
  for \<open>[2 ^ 30, 2 ^ 30 + 2 ^ 26 + 1)\<close> the last round of the loop returns \<open>0 + (s >> 29) = 2\<close>,
  and 2 is not among the candidate bins of that interval.
\<close>

theorem ucscbin_not_in_region2bin_large:
  "0 \<le> (1073741824::int) \<and> (1073741824::int) < 1140850689
   \<and> ucscbin 1073741824 1140850689 = 2
   \<and> ucscbin 1073741824 1140850689 \<notin> region2bin 1073741824 1140850689"
  by (simp add: ucscbin_unfold region2bin_unfold shr_def drop_bit_eq_div)

section \<open>Properties of the parser\<close>

text \<open>
  The definitions that a concrete line is evaluated with.
\<close>

lemmas line_eval_defs =
  readlines_def file_lines_def initial_pstate_def process_line_def startswith_def strip_def isspace_def
  a_line_def s_line_def split_def split_on_def count_char_def int_or_raise_def py_int_def
  unsigned_int_def digit_val_def strand_of_field_def expand_dots_def end_bundle_def
  MultipleSeqAlignment_def

text \<open>
  On the empty line, which stands for the exhausted handle, a round of the loop never
  goes on: it ends the bundle or leaves the loop.
\<close>

lemma process_line_empty: "process_line sc st [] \<noteq> Inr (Continue st')"
  by (auto simp: process_line_def startswith_def strip_def end_bundle_def split: sum.splits)

text \<open>
  C3, as stated: inside a bundle every line that is not a sequence line, a comment or a
  blank line makes the parser fail, and nothing but a comment is passed over. The
  code passes lines that start with \<open>i\<close>, \<open>e\<close> and \<open>q\<close> over as well: here an \<open>i\<close> line
  between the sequence line and the blank line leaves the parse without an error and
  the alignment as it is without that line.
\<close>

theorem i_line_in_bundle_is_ignored:
  "\<not> startswith ''i ref N 0 C 0\<newline>'' ''s''
   \<and> \<not> startswith ''i ref N 0 C 0\<newline>'' ''#''
   \<and> strip ''i ref N 0 C 0\<newline>'' \<noteq> []
   \<and> MafIterator ''a score=1\<newline>s ref 0 3 + 10 ACG\<newline>i ref N 0 C 0\<newline>\<newline>'' None =
       ([\<lparr>records = [\<lparr>seq = ''ACG'', rec_id = ''ref'', name = Some ''ref'',
                      description = Some [],
                      annotations = [(''start'', 0), (''size'', 3), (''strand'', 1),
                                     (''srcSize'', 10)]\<rparr>],
          aln_annotations = [(''score'', ''1'')]\<rparr>], None)"
  by (simp add: MafIterator_def line_eval_defs)

text \<open>
  C3, amended: inside a bundle, a line that does not start with \<open>s\<close> and is not blank is
  passed over without any effect if it starts with \<open>i\<close>, \<open>e\<close>, \<open>q\<close> or \<open>#\<close>, and makes the
  parser fail with the \<open>ValueError\<close> "unexpected line" in every other case.
\<close>

theorem in_bundle_other_lines:
  assumes "in_a_bundle st" and "\<not> startswith line ''s''" and "strip line \<noteq> []"
  shows "process_line sc st line =
           (if startswith line ''i'' \<or> startswith line ''e'' \<or> startswith line ''q''
               \<or> startswith line ''#''
            then Inr (Continue st) else Inl (ValueError UnexpectedLine))"
  using assms by (simp add: process_line_def)

text \<open>An \<open>i\<close> line is passed over; a \<open>track\<close> line is an error.\<close>

theorem in_bundle_other_lines_witness:
  "process_line None \<lparr>in_a_bundle = True, bundle_annotations = [], bundle_records = []\<rparr>
     ''i ref N 0 C 0\<newline>''
   = Inr (Continue \<lparr>in_a_bundle = True, bundle_annotations = [], bundle_records = []\<rparr>)
   \<and> process_line None \<lparr>in_a_bundle = True, bundle_annotations = [], bundle_records = []\<rparr>
     ''track name=x\<newline>''
   = Inl (ValueError UnexpectedLine)"
  using in_bundle_other_lines [of "\<lparr>in_a_bundle = True, bundle_annotations = [], bundle_records = []\<rparr>"
      "''i ref N 0 C 0\<newline>''" None]
    in_bundle_other_lines [of "\<lparr>in_a_bundle = True, bundle_annotations = [], bundle_records = []\<rparr>"
      "''track name=x\<newline>''" None]
  by (simp add: startswith_def strip_def isspace_def)

text \<open>
  C9. A line of seven fields that starts with \<open>s\<close> and has a dot in its text raises a
  \<open>ValueError\<close> when it is the first sequence line of its bundle (\<open>records\<close> is empty): the
  one about the dot in the first sequence, once the three numbers have been converted.
  When the bundle has a record already, the line gives a record whose text is the text
  of the line with its dots replaced from the first record of the bundle.
\<close>

theorem dot_in_s_line:
  assumes "in_a_bundle st" and "startswith line ''s''"
    and "fs = split (strip line)" and "length fs = 7"
    and "CHR ''.'' \<in> set (fs ! 6)"
  shows "(bundle_records st = [] \<longrightarrow> (\<exists>e. process_line sc st line = Inl (ValueError e)))
       \<and> (bundle_records st = [] \<and> py_int (fs ! 2) \<noteq> None \<and> py_int (fs ! 3) \<noteq> None
            \<and> py_int (fs ! 5) \<noteq> None
          \<longrightarrow> process_line sc st line = Inl (ValueError DotInFirstSequence))
       \<and> (bundle_records st \<noteq> [] \<and> py_int (fs ! 2) \<noteq> None \<and> py_int (fs ! 3) \<noteq> None
            \<and> py_int (fs ! 5) \<noteq> None
          \<longrightarrow> (\<exists>st'. process_line sc st line = Inr (Continue st')
                \<and> butlast (bundle_records st') = bundle_records st
                \<and> seq (last (bundle_records st'))
                    = expand_dots (fs ! 6) (seq (hd (bundle_records st)))))"
  using assms
  by (auto simp: process_line_def s_line_def int_or_raise_def Let_def
      split: option.splits list.splits)

text \<open>
  The same line is an error as the first sequence line of a bundle and is expanded
  after the record \<open>ACGTA\<close>.
\<close>

theorem dot_in_s_line_witness:
  "(\<exists>e. process_line None \<lparr>in_a_bundle = True, bundle_annotations = [], bundle_records = []\<rparr>
          ''s alt 200 5 + 500 AC.TA\<newline>'' = Inl (ValueError e))
   \<and> process_line None \<lparr>in_a_bundle = True, bundle_annotations = [], bundle_records = []\<rparr>
          ''s alt 200 5 + 500 AC.TA\<newline>'' = Inl (ValueError DotInFirstSequence)
   \<and> (\<exists>st'. process_line None
          \<lparr>in_a_bundle = True, bundle_annotations = [],
           bundle_records = [\<lparr>seq = ''ACGTA'', rec_id = ''ref'', name = Some ''ref'',
             description = Some [], annotations = []\<rparr>]\<rparr>
          ''s alt 200 5 + 500 AC.TA\<newline>'' = Inr (Continue st')
        \<and> seq (last (bundle_records st')) = ''ACGTA'')"
  using dot_in_s_line [where st = "\<lparr>in_a_bundle = True, bundle_annotations = [], bundle_records = []\<rparr>"
      and line = "''s alt 200 5 + 500 AC.TA\<newline>''" and sc = None
      and fs = "[''s'', ''alt'', ''200'', ''5'', ''+'', ''500'', ''AC.TA'']"]
    dot_in_s_line [where st = "\<lparr>in_a_bundle = True, bundle_annotations = [],
           bundle_records = [\<lparr>seq = ''ACGTA'', rec_id = ''ref'', name = Some ''ref'',
             description = Some [], annotations = []\<rparr>]\<rparr>"
      and line = "''s alt 200 5 + 500 AC.TA\<newline>''" and sc = None
      and fs = "[''s'', ''alt'', ''200'', ''5'', ''+'', ''500'', ''AC.TA'']"]
  by (simp add: startswith_def strip_def isspace_def split_def py_int_def unsigned_int_def
      digit_val_def expand_dots_def) blast

text \<open>A text without a dot is taken as it is, whether the line is the first or not.\<close>

lemma no_dot_in_s_line:
  assumes "in_a_bundle st" and "startswith line ''s''"
    and "fs = split (strip line)" and "length fs = 7"
    and "CHR ''.'' \<notin> set (fs ! 6)"
    and "py_int (fs ! 2) \<noteq> None" and "py_int (fs ! 3) \<noteq> None"
    and "py_int (fs ! 5) \<noteq> None"
  shows "\<exists>st'. process_line sc st line = Inr (Continue st')
                \<and> butlast (bundle_records st') = bundle_records st
                \<and> seq (last (bundle_records st')) = fs ! 6"
  using assms
  by (auto simp: process_line_def s_line_def int_or_raise_def Let_def
      split: option.splits list.splits)

text \<open>
  C10. A sequence line of seven fields whose strand field is neither \<open>+\<close> nor \<open>-\<close> is
  accepted (its numbers being numbers, and its text free of dots unless a record
  precedes it): the round goes on with one more record, whose id is the second field
  and whose strand annotation is 1, the value that the field \<open>+\<close> gives.
\<close>

theorem unknown_strand_is_plus:
  assumes "in_a_bundle st" and "startswith line ''s''"
    and "fs = split (strip line)" and "length fs = 7"
    and "fs ! 4 \<noteq> ''+''" and "fs ! 4 \<noteq> ''-''"
    and "py_int (fs ! 2) \<noteq> None" and "py_int (fs ! 3) \<noteq> None"
    and "py_int (fs ! 5) \<noteq> None"
    and "CHR ''.'' \<in> set (fs ! 6) \<longrightarrow> bundle_records st \<noteq> []"
  shows "\<exists>st'. process_line sc st line = Inr (Continue st')
                \<and> butlast (bundle_records st') = bundle_records st
                \<and> rec_id (last (bundle_records st')) = fs ! 1
                \<and> map_of (annotations (last (bundle_records st'))) ''strand'' = Some 1
                \<and> strand_of_field (fs ! 4) = strand_of_field ''+''"
  using assms
  by (auto simp: process_line_def s_line_def int_or_raise_def Let_def strand_of_field_def
      split: option.splits list.splits)

text \<open>The strand field \<open>?\<close> gives the strand 1.\<close>

theorem unknown_strand_is_plus_witness:
  "\<exists>st'. process_line None \<lparr>in_a_bundle = True, bundle_annotations = [], bundle_records = []\<rparr>
          ''s ref 100 5 ? 1000 ACGTA\<newline>'' = Inr (Continue st')
        \<and> butlast (bundle_records st') = []
        \<and> rec_id (last (bundle_records st')) = ''ref''
        \<and> map_of (annotations (last (bundle_records st'))) ''strand'' = Some 1"
  using unknown_strand_is_plus [where st = "\<lparr>in_a_bundle = True, bundle_annotations = [], bundle_records = []\<rparr>"
      and line = "''s ref 100 5 ? 1000 ACGTA\<newline>''" and sc = None
      and fs = "[''s'', ''ref'', ''100'', ''5'', ''?'', ''1000'', ''ACGTA'']"]
  by (simp add: startswith_def strip_def isspace_def split_def py_int_def unsigned_int_def
      digit_val_def) blast

section \<open>Properties of the persisted index\<close>

text \<open>
  For a database that has both tables, with a value for each of the four keys of
  \<open>meta_data\<close> and integers as the values of \<open>version\<close> and \<open>record_count\<close>, the check of an
  existing index makes five comparisons in this order, and returns the number of rows
  when all of them pass.
\<close>

lemma check_existing_db_readable:
  assumes "meta_data db = Some md" and "offset_data db = Some rows"
    and "map_of md ''version'' = Some v" and "py_int v = Some stored_version"
    and "map_of md ''filename'' = Some stored_filename"
    and "map_of md ''target_seqname'' = Some stored_target"
    and "map_of md ''record_count'' = Some c" and "py_int c = Some stored_count"
  shows "((\<exists>e. check_existing_db db maf_name target = Inl e)
          \<longleftrightarrow> (stored_version \<noteq> MAFINDEX_VERSION \<or> stored_filename \<noteq> maf_name
               \<or> stored_target \<noteq> target \<or> stored_count = - 1
               \<or> int (length rows) \<noteq> stored_count))
       \<and> check_existing_db db maf_name target =
           (if stored_version \<noteq> MAFINDEX_VERSION then Inl (ValueError IndexVersionIncompatible)
            else if stored_filename \<noteq> maf_name then Inl (ValueError IndexUsesDifferentFile)
            else if stored_target \<noteq> target then Inl (ValueError IndexedForOtherTarget)
            else if stored_count = - 1 then Inl (ValueError UnfinishedDatabase)
            else if int (length rows) \<noteq> stored_count then Inl (ValueError RecordCountMismatch)
            else Inr (int (length rows)))"
  using assms
  by (auto simp: check_existing_db_def check_existing_db_try_def select_value_def
      count_offset_data_def int_or_raise_def)


text \<open>The check succeeds, with the result \<open>n\<close>, in exactly one situation.\<close>

lemma check_existing_db_Inr_iff:
  "check_existing_db db maf_name target = Inr n \<longleftrightarrow>
     stored_int db ''version'' = Some MAFINDEX_VERSION
     \<and> stored_value db ''filename'' = Some maf_name
     \<and> stored_value db ''target_seqname'' = Some target
     \<and> stored_int db ''record_count'' = Some n \<and> n \<noteq> - 1
     \<and> stored_entries db = Some n"
  by (auto simp: check_existing_db_def check_existing_db_try_def select_value_def
      count_offset_data_def int_or_raise_def stored_value_def stored_int_def stored_entries_def
      split: option.splits sum.splits error.splits if_splits)

text \<open>
  C7, as stated: the check of an existing index fails exactly when the stored version
  is not the version of the module, or the stored file name or target are not the ones
  asked for, or the stored record count is \<open>-1\<close>, or the number of rows stored differs
  from it. The code fails in other cases too. In the first store below the version,
  the file name and the target are the ones asked for and the record count is 0, and
  no row is stored, but the table \<open>offset_data\<close> is missing: the \<open>except\<close> clause reports
  the error of the database as a \<open>ValueError\<close>. The same happens without any table, and
  a table \<open>meta_data\<close> without rows makes the subscript of \<open>fetchone()\<close> fail.
\<close>

theorem check_existing_db_unreadable_store:
  "py_int ''1'' = Some MAFINDEX_VERSION \<and> py_int ''0'' = Some 0
   \<and> check_existing_db
        \<lparr>meta_data = Some [(''version'', ''1''), (''record_count'', ''0''),
                           (''target_seqname'', ''ref''), (''filename'', ''example.maf'')],
         offset_data = None\<rparr> ''example.maf'' ''ref'' = Inl (ValueError ProblemWithSQLite)
   \<and> check_existing_db \<lparr>meta_data = None, offset_data = None\<rparr> ''example.maf'' ''ref''
       = Inl (ValueError ProblemWithSQLite)
   \<and> check_existing_db \<lparr>meta_data = Some [], offset_data = None\<rparr> ''example.maf'' ''ref''
       = Inl TypeError"
  by (simp add: check_existing_db_def check_existing_db_try_def select_value_def
      count_offset_data_def int_or_raise_def MAFINDEX_VERSION_def py_int_def strip_def
      isspace_def unsigned_int_def digit_val_def)

text \<open>
  C7, amended: the check of an existing index fails exactly when a metadata value or
  the table of the entries cannot be read (the table or the row is missing, or the
  version or the record count is not an integer), or the stored version is not the
  version of the module, or the stored file name or target are not the ones asked for,
  or the stored record count is \<open>-1\<close>, or the number of rows stored differs from it; in
  every other case it succeeds, and returns the number of rows.
\<close>

theorem check_existing_db_fails_iff:
  "((\<exists>e. check_existing_db db maf_name target = Inl e) \<longleftrightarrow>
      stored_int db ''version'' = None \<or> stored_value db ''filename'' = None
      \<or> stored_value db ''target_seqname'' = None \<or> stored_int db ''record_count'' = None
      \<or> stored_entries db = None
      \<or> stored_int db ''version'' \<noteq> Some MAFINDEX_VERSION
      \<or> stored_value db ''filename'' \<noteq> Some maf_name
      \<or> stored_value db ''target_seqname'' \<noteq> Some target
      \<or> stored_int db ''record_count'' = Some (- 1)
      \<or> stored_entries db \<noteq> stored_int db ''record_count'')
   \<and> (check_existing_db db maf_name target = Inr n \<longleftrightarrow>
        stored_int db ''version'' = Some MAFINDEX_VERSION
        \<and> stored_value db ''filename'' = Some maf_name
        \<and> stored_value db ''target_seqname'' = Some target
        \<and> stored_int db ''record_count'' = Some n \<and> n \<noteq> - 1
        \<and> stored_entries db = Some n)"
proof -
  have split: "(\<exists>e. check_existing_db db maf_name target = Inl e)
        \<longleftrightarrow> \<not> (\<exists>n. check_existing_db db maf_name target = Inr n)"
    by (cases "check_existing_db db maf_name target") auto
  have ok: "(\<exists>n. check_existing_db db maf_name target = Inr n) \<longleftrightarrow>
     stored_int db ''version'' = Some MAFINDEX_VERSION
     \<and> stored_value db ''filename'' = Some maf_name
     \<and> stored_value db ''target_seqname'' = Some target
     \<and> stored_int db ''record_count'' \<noteq> None
     \<and> stored_int db ''record_count'' \<noteq> Some (- 1)
     \<and> stored_entries db = stored_int db ''record_count''"
    unfolding check_existing_db_Inr_iff by auto
  have fails: "(\<exists>e. check_existing_db db maf_name target = Inl e) \<longleftrightarrow>
      stored_int db ''version'' = None \<or> stored_value db ''filename'' = None
      \<or> stored_value db ''target_seqname'' = None \<or> stored_int db ''record_count'' = None
      \<or> stored_entries db = None
      \<or> stored_int db ''version'' \<noteq> Some MAFINDEX_VERSION
      \<or> stored_value db ''filename'' \<noteq> Some maf_name
      \<or> stored_value db ''target_seqname'' \<noteq> Some target
      \<or> stored_int db ''record_count'' = Some (- 1)
      \<or> stored_entries db \<noteq> stored_int db ''record_count''"
    unfolding split ok by auto
  show ?thesis
    using fails check_existing_db_Inr_iff [of db maf_name target n] by blast
qed

text \<open>
  The store of the first example file is accepted for that file and its target, and
  the store of the second example file is refused for them.
\<close>

theorem check_existing_db_fails_iff_witness:
  "check_existing_db (db_con example_index) ''example.maf'' ''ref'' = Inr 2
   \<and> (\<exists>e. check_existing_db (db_con twice_index) ''example.maf'' ''ref'' = Inl e)"
  using check_existing_db_fails_iff [of "db_con example_index" "''example.maf''" "''ref''" 2]
    check_existing_db_fails_iff [of "db_con twice_index" "''example.maf''" "''ref''" 0]
  by (simp add: example_index_def twice_index_def stored_int_def stored_value_def
      stored_entries_def MAFINDEX_VERSION_def py_int_def strip_def isspace_def unsigned_int_def
      digit_val_def)

section \<open>Properties of the index builder\<close>

text \<open>
  The lines of a file take all its bytes, and in a file without carriage returns
  every line takes as many bytes as it has characters.
\<close>

lemma taken_lines_acc:
  "(cur = [] \<longrightarrow> taken = 0) \<Longrightarrow>
   sum_list (map snd (lines_acc cur taken s)) = taken + length s"
  by (induction cur taken s rule: lines_acc.induct) auto

lemma taken_file_lines: "sum_list (map snd (file_lines bytes)) = length bytes"
  by (simp add: file_lines_def taken_lines_acc)

lemma lines_acc_no_carriage_return:
  "CHR 0x0D \<notin> set s \<Longrightarrow> taken = length cur \<Longrightarrow>
   \<forall>(line, n) \<in> set (lines_acc cur taken s). n = length line"
  by (induction cur taken s rule: lines_acc.induct) auto

lemma file_lines_no_carriage_return:
  "CHR 0x0D \<notin> set bytes \<Longrightarrow> \<forall>(line, n) \<in> set (file_lines bytes). n = length line"
  using lines_acc_no_carriage_return [of bytes 0 "[]"] by (simp add: file_lines_def)

lemma strip_eq_Nil_iff: "strip s = [] \<longleftrightarrow> (\<forall>c \<in> set s. isspace c)"
proof
  assume "\<forall>c \<in> set s. isspace c"
  then show "strip s = []"
    by (auto simp: strip_def dest: set_dropWhileD)
next
  assume "strip s = []"
  then have a: "\<forall>c \<in> set (dropWhile isspace s). isspace c"
    by (simp add: strip_def)
  have "dropWhile isspace s = []"
  proof (cases "dropWhile isspace s")
    case Nil
    then show ?thesis by simp
  next
    case (Cons c cs)
    then have "\<not> isspace c"
      using hd_dropWhile [of isspace s] by simp
    then show ?thesis using Cons a by simp
  qed
  then show "\<forall>c \<in> set s. isspace c"
    by (simp add: dropWhile_eq_Nil_conv)
qed

lemma s_line_not_blank:
  assumes "startswith line ''s''"
  shows "strip line \<noteq> []" and "\<not> startswith line ''a''"
proof -
  obtain cs where l: "line = CHR ''s'' # cs"
    using assms by (cases line) (auto simp: startswith_def)
  show "strip line \<noteq> []"
    by (simp add: strip_eq_Nil_iff l isspace_def)
  show "\<not> startswith line ''a''"
    by (simp add: l startswith_def)
qed

lemma indexer_inner_passed_over:
  "\<forall>l \<in> set body. passed_over target (fst l) \<Longrightarrow>
   maf_indexer_loop target (Inner offset) pos (body @ rest)
   = maf_indexer_loop target (Inner offset) (pos + sum_list (map snd body)) rest"
proof (induction body arbitrary: pos)
  case Nil
  then show ?case by simp
next
  case (Cons l body)
  obtain line taken where lt: "l = (line, taken)"
    by (cases l) auto
  have l: "passed_over target line" and body: "\<forall>l \<in> set body. passed_over target (fst l)"
    using Cons.prems by (simp_all add: lt)
  have step: "maf_indexer_loop target (Inner offset) pos ((line, taken) # body @ rest)
        = maf_indexer_loop target (Inner offset) (pos + taken) (body @ rest)"
    using l by (auto simp: passed_over_def Let_def item_def)
  show ?case
    using step Cons.IH [OF body, of "pos + taken"] by (simp add: lt add.assoc)
qed

lemma indexer_outer_no_a:
  "\<forall>l \<in> set ls. \<not> startswith (fst l) ''a'' \<Longrightarrow>
   maf_indexer_loop target Outer pos (ls @ rest)
   = maf_indexer_loop target Outer (pos + sum_list (map snd ls)) rest"
proof (induction ls arbitrary: pos)
  case Nil
  then show ?case by simp
next
  case (Cons l ls)
  obtain line taken where lt: "l = (line, taken)"
    by (cases l) auto
  show ?case
    using Cons.prems Cons.IH [of "pos + taken"] by (simp add: lt Let_def add.assoc)
qed

lemma indexer_inner_end:
  assumes "rest = [] \<or> strip (fst (hd rest)) = [] \<or> startswith (fst (hd rest)) ''a''"
  shows "maf_indexer_loop target (Inner offset) pos rest
         = ([], Some (ValueError TargetNotFoundInBundle))"
proof (cases rest)
  case Nil
  then show ?thesis by simp
next
  case (Cons l ls)
  obtain line taken where lt: "l = (line, taken)"
    by (cases l) auto
  show ?thesis
    using assms by (auto simp: Cons lt Let_def)
qed

lemma indexer_inner_target:
  assumes "startswith t_line ''s''" and "fs = split (strip t_line)" and "7 \<le> length fs"
    and "fs ! 1 = target" and "py_int (fs ! 2) = Some start_v"
    and "py_int (fs ! 3) = Some size_v"
  shows "maf_indexer_loop target (Inner offset) pos ((t_line, t_taken) # rest) =
           (if size_v \<noteq> int (length (remove_char CHR ''-'' (fs ! 6)))
            then ([], Some (ValueError InvalidTargetLength))
            else (case maf_indexer_loop target Outer (pos + t_taken) rest of
                    (entries, err) \<Rightarrow>
                      ((ucscbin start_v (start_v + size_v - 1 + 1), start_v,
                        start_v + size_v - 1, offset) # entries, err)))"
  using assms s_line_not_blank [OF assms(1)]
  by (simp add: Let_def item_def target_entry_def int_or_raise_def)

text \<open>
  What the builder does on one bundle. It is in its outer loop before the lines
  \<open>before\<close>, none of which starts a bundle; the line \<open>aline\<close>, which took \<open>a_taken\<close> bytes,
  starts a bundle, and the lines \<open>body\<close> are passed over by the search for the target.
  If the next line is the target's sequence line \<open>t_line\<close>, of at least seven fields with
  start and size as numbers, then the builder fails with the \<open>ValueError\<close> about the
  length when the size is not the number of symbols of the text other than \<open>-\<close>;
  otherwise it yields the entry \<open>(_ucscbin(start, end + 1), start, end, offset)\<close> with
  \<open>end = start + size - 1\<close>, nothing for the lines \<open>tail\<close> that follow in the bundle, and
  then what it yields for the rest of the file. The offset is the position after
  \<open>aline\<close> less the number of characters of \<open>aline\<close>. If instead the bundle ends (at the
  end of the file, a blank line or the next \<open>a\<close> line) the builder fails with the
  \<open>ValueError\<close> "target not found in this bundle".
\<close>

lemma maf_indexer_block:
  assumes "\<forall>l \<in> set before. \<not> startswith (fst l) ''a''"
    and "startswith aline ''a''"
    and "\<forall>l \<in> set body. passed_over target (fst l)"
  shows "(startswith t_line ''s'' \<and> fs = split (strip t_line) \<and> 7 \<le> length fs
          \<and> fs ! 1 = target \<and> py_int (fs ! 2) = Some start_v \<and> py_int (fs ! 3) = Some size_v
          \<and> (\<forall>l \<in> set tail. \<not> startswith (fst l) ''a'')
          \<longrightarrow> maf_indexer_loop target Outer pos
                (before @ (aline, a_taken) # body @ (t_line, t_taken) # tail @ rest) =
               (if size_v \<noteq> int (length (remove_char CHR ''-'' (fs ! 6)))
                then ([], Some (ValueError InvalidTargetLength))
                else (case maf_indexer_loop target Outer
                             (pos + sum_list (map snd
                                (before @ (aline, a_taken) # body @ (t_line, t_taken) # tail)))
                             rest of
                        (entries, err) \<Rightarrow>
                          ((ucscbin start_v (start_v + size_v - 1 + 1), start_v,
                            start_v + size_v - 1,
                            int (pos + sum_list (map snd before) + a_taken) - int (length aline))
                           # entries, err))))
       \<and> (rest = [] \<or> strip (fst (hd rest)) = [] \<or> startswith (fst (hd rest)) ''a''
          \<longrightarrow> maf_indexer_loop target Outer pos (before @ (aline, a_taken) # body @ rest)
              = ([], Some (ValueError TargetNotFoundInBundle)))"
proof -
  let ?offset = "int (pos + sum_list (map snd before) + a_taken) - int (length aline)"
  have start: "maf_indexer_loop target Outer pos (before @ (aline, a_taken) # ls)
        = maf_indexer_loop target (Inner ?offset)
            (pos + sum_list (map snd before) + a_taken) ls" for ls
    using indexer_outer_no_a [OF assms(1), of target pos "(aline, a_taken) # ls"] assms(2)
    by (simp add: Let_def)
  have inner: "maf_indexer_loop target Outer pos (before @ (aline, a_taken) # body @ ls)
        = maf_indexer_loop target (Inner ?offset)
            (pos + sum_list (map snd before) + a_taken + sum_list (map snd body)) ls" for ls
    using start [of "body @ ls"] indexer_inner_passed_over [OF assms(3)] by simp
  have found: "maf_indexer_loop target Outer pos
                (before @ (aline, a_taken) # body @ (t_line, t_taken) # tail @ rest) =
               (if size_v \<noteq> int (length (remove_char CHR ''-'' (fs ! 6)))
                then ([], Some (ValueError InvalidTargetLength))
                else (case maf_indexer_loop target Outer
                             (pos + sum_list (map snd
                                (before @ (aline, a_taken) # body @ (t_line, t_taken) # tail)))
                             rest of
                        (entries, err) \<Rightarrow>
                          ((ucscbin start_v (start_v + size_v - 1 + 1), start_v,
                            start_v + size_v - 1, ?offset) # entries, err)))"
    if t: "startswith t_line ''s''" "fs = split (strip t_line)" "7 \<le> length fs"
      "fs ! 1 = target" "py_int (fs ! 2) = Some start_v" "py_int (fs ! 3) = Some size_v"
      and tail: "\<forall>l \<in> set tail. \<not> startswith (fst l) ''a''"
  proof -
    have "maf_indexer_loop target Outer
            (pos + sum_list (map snd before) + a_taken + sum_list (map snd body) + t_taken)
            (tail @ rest)
          = maf_indexer_loop target Outer
              (pos + sum_list (map snd
                 (before @ (aline, a_taken) # body @ (t_line, t_taken) # tail))) rest"
      using indexer_outer_no_a [OF tail] by (simp add: add.assoc)
    then show ?thesis
      using inner [of "(t_line, t_taken) # tail @ rest"] indexer_inner_target [OF t] by simp
  qed
  have missing: "maf_indexer_loop target Outer pos (before @ (aline, a_taken) # body @ rest)
              = ([], Some (ValueError TargetNotFoundInBundle))"
    if "rest = [] \<or> strip (fst (hd rest)) = [] \<or> startswith (fst (hd rest)) ''a''"
    using inner [of rest] indexer_inner_end [OF that] by simp
  show ?thesis
    using found missing by blast
qed

text \<open>
  C8. The claim is that the builder emits, for every block, the entry
  \<open>(smallestBin(start, end + 1), start, end, offset)\<close> with \<open>offset\<close> the byte position
  where the block began, and fails with a format error if the block has no record of
  the target. The code notes \<open>tell() - len(line)\<close> as the offset: the position in bytes
  less the number of characters of the line delivered. For a file with the line endings
  carriage return and line feed the line \<open>a score=1\<close> takes eleven bytes and is delivered
  with ten characters, so that the bundle that begins at byte 0 is entered with the
  offset 1; at that offset \<open>_get_record\<close> does not find the bundle (at byte 0 it does).
  And a bundle whose only sequence line has one field makes the builder fail with an
  \<open>IndexError\<close>, not with the error about the missing target.
\<close>

theorem maf_indexer_offset_with_carriage_returns:
  "take 9 crlf_text = ''a score=1''
   \<and> maf_indexer crlf_text ''ref'' = ([(585, 100, 104, 1)], None)
   \<and> get_record crlf_text 1 = Inl StopIteration
   \<and> get_record crlf_text 0 = Inr example_block1
   \<and> maf_indexer ''a score=1\<newline>s\<newline>\<newline>'' ''ref'' = ([], Some IndexError)"
  by code_simp

section \<open>The example files, evaluated\<close>

lemma maf_indexer_example:
  "maf_indexer example_text ''ref'' = ([(585, 100, 104, 0), (585, 110, 114, 60)], None)"
  by code_simp

lemma maf_indexer_twice:
  "maf_indexer twice_text ''ref'' = ([(585, 100, 102, 0)], None)"
  by code_simp

lemma maf_indexer_zero:
  "maf_indexer zero_text ''ref'' = ([(585, 100, 99, 0)], None)"
  by code_simp

lemma search_example_two_exons:
  "search example_index [100, 110] [103, 112] = ([example_block1, example_block2], None)"
  by code_simp

lemma search_example_one_exon:
  "search example_index [100] [112] = ([example_block1, example_block2], None)"
  by code_simp

lemma search_twice:
  "search twice_index [100] [103] = ([twice_block], None)"
  by code_simp

lemma spliced_texts_twice:
  "spliced_texts ''ref'' [twice_block] [(100, 103)] = Inr (Some 1, [(''ref'', ''AACCGG'')])"
  by code_simp

lemma get_spliced_example:
  "get_spliced example_index [100, 110] [103, 112] 1 =
     Inr [\<lparr>seq = ''ACGAC'', rec_id = ''ref'', name = Some ''ref'', description = Some [],
            annotations = []\<rparr>,
          \<lparr>seq = ''ACCAC'', rec_id = ''alt'', name = Some ''alt'', description = Some [],
            annotations = []\<rparr>]"
  by code_simp

section \<open>Properties of the search\<close>

lemma overlaps_iff_common_position:
  assumes "start_v \<le> end_v" and "exonstart < exonend"
  shows "overlaps exonstart exonend start_v end_v
         \<longleftrightarrow> (\<exists>p. start_v \<le> p \<and> p \<le> end_v \<and> exonstart \<le> p \<and> p < exonend)"
proof
  assume "overlaps exonstart exonend start_v end_v"
  then consider "exonstart \<le> end_v \<and> end_v \<le> exonend - 1"
    | "start_v \<le> exonend - 1 \<and> exonend - 1 \<le> end_v"
    by (auto simp: overlaps_def)
  then show "\<exists>p. start_v \<le> p \<and> p \<le> end_v \<and> exonstart \<le> p \<and> p < exonend"
  proof cases
    case 1
    then show ?thesis using assms by (intro exI [of _ end_v]) auto
  next
    case 2
    then show ?thesis using assms by (intro exI [of _ "exonend - 1"]) auto
  qed
next
  assume "\<exists>p. start_v \<le> p \<and> p \<le> end_v \<and> exonstart \<le> p \<and> p < exonend"
  then show "overlaps exonstart exonend start_v end_v"
    by (auto simp: overlaps_def)
qed

lemma fetch_rows_prefix:
  "fetch_rows idx rows = (blocks, err) \<Longrightarrow>
     list_all2 (\<lambda>(start_v, end_v, offset) block. get_record (maf_text idx) offset = Inr block)
       (take (length blocks) rows) blocks
     \<and> length blocks \<le> length rows
     \<and> (err = None \<longrightarrow> length blocks = length rows)"
proof (induction rows arbitrary: blocks err)
  case Nil
  then show ?case by simp
next
  case (Cons row rows)
  obtain rec_start rec_end offset where row: "row = (rec_start, rec_end, offset)"
    by (cases row) auto
  show ?case
  proof (cases "get_record (maf_text idx) offset")
    case (Inl e)
    then have "blocks = []" "err = Some e"
      using Cons.prems by (simp_all add: row)
    then show ?thesis by simp
  next
    case (Inr fetched)
    show ?thesis
    proof (cases "check_fetched (target_seqname idx) rec_start rec_end (records fetched)")
      case (Some e)
      then have "blocks = []" "err = Some e"
        using Cons.prems Inr by (simp_all add: row)
      then show ?thesis by simp
    next
      case None
      obtain as err' where rec: "fetch_rows idx rows = (as, err')"
        by (cases "fetch_rows idx rows") auto
      have res: "blocks = fetched # as" "err = err'"
        using Cons.prems Inr None rec by (simp_all add: row)
      show ?thesis
        using Cons.IH [OF rec] Inr by (simp add: res row)
    qed
  qed
qed

lemma search_exons_prefix:
  assumes "offset_data (db_con idx) = Some rows"
  shows "search_exons idx exons = (blocks, err) \<Longrightarrow>
     list_all2 (\<lambda>(start_v, end_v, offset) block. get_record (maf_text idx) offset = Inr block)
       (take (length blocks)
          (concat (map (\<lambda>(exonstart, exonend). select_rows rows exonstart exonend) exons)))
       blocks
     \<and> (err = None \<longrightarrow>
          length blocks
          = length (concat (map (\<lambda>(exonstart, exonend). select_rows rows exonstart exonend) exons)))"
proof (induction exons arbitrary: blocks err)
  case Nil
  then show ?case by simp
next
  case (Cons exon exons)
  obtain exonstart exonend where exon: "exon = (exonstart, exonend)"
    by (cases exon) auto
  obtain as err1 where first: "fetch_rows idx (select_rows rows exonstart exonend) = (as, err1)"
    by (cases "fetch_rows idx (select_rows rows exonstart exonend)") auto
  note p = fetch_rows_prefix [OF first]
  show ?case
  proof (cases err1)
    case (Some e)
    then have "blocks = as" "err = Some e"
      using Cons.prems assms first by (simp_all add: exon)
    then show ?thesis
      using p by (simp add: exon)
  next
    case None
    obtain bs err2 where rest: "search_exons idx exons = (bs, err2)"
      by (cases "search_exons idx exons") auto
    have res: "blocks = as @ bs" "err = err2"
      using Cons.prems assms first None rest by (simp_all add: exon)
    have len: "length as = length (select_rows rows exonstart exonend)"
      using p None by simp
    show ?thesis
      using Cons.IH [OF rest] p len
      by (simp add: res exon list_all2_appendI)
  qed
qed

text \<open>
  What does hold of the order: the alignments that \<open>search\<close> yields are those at the
  offsets of the rows of \<open>search_rows\<close>, in that order (all of them when \<open>search\<close> ends
  without an error, the first of them otherwise); \<open>search_rows\<close> is the rows selected for
  the first exon, followed by those for the second, and so on in the order of the exons,
  and the rows selected for one exon are distinct and in ascending order of
  \<open>(start, end, offset)\<close>.
\<close>

lemma search_order_within_each_interval:
  assumes "offset_data (db_con idx) = Some rows"
    and "search idx starts ends = (blocks, err)"
  shows "list_all2 (\<lambda>(start_v, end_v, offset) block. get_record (maf_text idx) offset = Inr block)
           (take (length blocks) (search_rows rows starts ends)) blocks
       \<and> (err = None \<longrightarrow> length blocks = length (search_rows rows starts ends))
       \<and> search_rows rows starts ends
           = concat (map (\<lambda>(exonstart, exonend). select_rows rows exonstart exonend)
                       (zip starts ends))
       \<and> (\<forall>(exonstart, exonend) \<in> set (zip starts ends).
             sorted (select_rows rows exonstart exonend)
             \<and> distinct (select_rows rows exonstart exonend))"
proof -
  have sorted: "\<forall>(exonstart, exonend) \<in> set (zip starts ends).
             sorted (select_rows rows exonstart exonend)
             \<and> distinct (select_rows rows exonstart exonend)"
    by (simp add: select_rows_def split_beta)
  show ?thesis
  proof (cases "search idx starts ends = search_exons idx (zip starts ends)")
    case True
    then show ?thesis
      using search_exons_prefix [OF assms(1), of "zip starts ends" blocks err] assms(2) sorted
      by (simp add: search_rows_def)
  next
    case False
    then have "blocks = []" "err \<noteq> None"
      using assms(2) by (auto simp: search_def split: if_splits)
    then show ?thesis
      using sorted by (auto simp: search_rows_def)
  qed
qed

text \<open>
  For the one exon \<open>[100, 112)\<close> both bundles of the first example file are yielded, in
  the order of their rows.
\<close>

lemma search_order_one_exon:
  "length (fst (search example_index [100] [112])) = 2
   \<and> search_rows [(585, 100, 104, 0), (585, 110, 114, 60)] [100] [112]
       = [(100, 104, 0), (110, 114, 60)]
   \<and> sorted [(100::int, 104::int, 0::int), (110, 114, 60)]"
  using search_order_within_each_interval [where idx = example_index
      and rows = "[(585, 100, 104, 0), (585, 110, 114, 60)]" and starts = "[100]"
      and ends = "[112]" and blocks = "[example_block1, example_block2]" and err = None]
    search_example_one_exon
  by (simp add: example_index_def search_rows_def select_rows_def row_matches_def overlaps_def
      region2bin_unfold shr_def drop_bit_eq_div)

text \<open>
  C2. The claim is that the alignments that \<open>search\<close> yields are in ascending order of
  \<open>(start, end, offset)\<close> over the whole output, not only within each interval; the
  documentation of \<open>search\<close> promises its results in order by start, then end, then
  offset. The code makes one ordered query for each exon and yields the rows of each
  query in turn. For the exons \<open>[110, 112)\<close> and \<open>[100, 103)\<close>, in this order, the index
  of the first example file yields the bundle at 110 before the bundle at 100. And a
  bundle that two exons overlap is yielded once for each of them: for the exons
  \<open>[100, 102)\<close> and \<open>[103, 105)\<close> the bundle at 100 is yielded twice, and \<open>get_spliced\<close>,
  which adds up the sizes of the bundles that it is given, fails on these exons.
\<close>

theorem search_not_ordered_across_intervals:
  "search example_index [110, 100] [112, 103] = ([example_block2, example_block1], None)
   \<and> search_rows [(585, 100, 104, 0), (585, 110, 114, 60)] [110, 100] [112, 103]
       = [(110, 114, 60), (100, 104, 0)]
   \<and> \<not> sorted (search_rows [(585, 100, 104, 0), (585, 110, 114, 60)] [110, 100] [112, 103])
   \<and> search example_index [100, 103] [102, 105] = ([example_block1, example_block1], None)
   \<and> get_spliced example_index [100, 103] [102, 105] 1 = Inl (ValueError PositionCountMismatch)"
  by (intro conjI; code_simp)

section \<open>Properties of the splicing\<close>

lemma select_rows_none:
  assumes "\<forall>row \<in> set rows. \<not> row_matches exonstart exonend row"
  shows "select_rows rows exonstart exonend = []"
proof -
  have "filter (row_matches exonstart exonend) rows = []"
    using assms by (simp add: filter_empty_conv)
  then show ?thesis
    by (simp add: select_rows_def)
qed

lemma search_exons_none:
  assumes "offset_data (db_con idx) = Some rows"
    and "\<forall>(exonstart, exonend) \<in> set exons. select_rows rows exonstart exonend = []"
  shows "search_exons idx exons = ([], None)"
  using assms by (induction exons) auto

text \<open>
  For a strand of 1 or \<open>-1\<close> and exons \<open>[start, end)\<close> with \<open>start < end\<close>, as many starts
  as ends: if the query of \<open>search\<close> selects no row of the index for any exon, then
  \<open>get_spliced\<close> returns one record, with the id of the target and the text \<open>N\<close> repeated
  as many times as the exons have positions.
\<close>

lemma get_spliced_no_matching_row:
  assumes "strand = 1 \<or> strand = - 1"
    and "length starts = length ends"
    and "\<forall>(exonstart, exonend) \<in> set (zip starts ends). exonstart < exonend"
    and "offset_data (db_con idx) = Some rows"
    and "\<forall>(bin, start_v, end_v, offset) \<in> set rows.
           \<forall>(exonstart, exonend) \<in> set (zip starts ends).
             \<not> overlaps exonstart exonend start_v end_v"
  shows "get_spliced idx starts ends strand =
           Inr [\<lparr>seq = replicate (nat (\<Sum>(exonstart, exonend) \<leftarrow> zip starts ends. exonend - exonstart))
                        CHR ''N'',
                 rec_id = target_seqname idx, name = None, description = None,
                 annotations = []\<rparr>]"
proof -
  have "\<forall>(exonstart, exonend) \<in> set (zip starts ends). select_rows rows exonstart exonend = []"
  proof (intro ballI, clarify)
    fix exonstart exonend
    assume ex: "(exonstart, exonend) \<in> set (zip starts ends)"
    have "\<not> row_matches exonstart exonend row" if "row \<in> set rows" for row
    proof -
      obtain bin start_v end_v offset where row: "row = (bin, start_v, end_v, offset)"
        by (cases row) auto
      have "\<not> overlaps exonstart exonend start_v end_v"
        using assms(5) that ex unfolding row by blast
      then show ?thesis
        by (simp add: row_matches_def row)
    qed
    then show "select_rows rows exonstart exonend = []"
      by (intro select_rows_none) blast
  qed
  then have "search_exons idx (zip starts ends) = ([], None)"
    using assms(4) by (rule search_exons_none [rotated])
  moreover have "\<not> (\<exists>(exonstart, exonend) \<in> set (zip starts ends). exonend - exonstart < 1)"
    using assms(3) by fastforce
  ultimately have "search idx starts ends = ([], None)"
    using assms(2) by (simp add: search_def)
  then show ?thesis
    using assms(1) by (auto simp: get_spliced_def MultipleSeqAlignment_def)
qed

text \<open>No row of the first example file overlaps the exon \<open>[10, 13)\<close>.\<close>

lemma get_spliced_example_no_row:
  "get_spliced example_index [10] [13] 1 =
     Inr [\<lparr>seq = ''NNN'', rec_id = ''ref'', name = None, description = None, annotations = []\<rparr>]"
  using get_spliced_no_matching_row [where idx = example_index and starts = "[10]"
      and ends = "[13]" and strand = 1 and rows = "[(585, 100, 104, 0), (585, 110, 114, 60)]"]
  by (simp add: example_index_def overlaps_def numeral_3_eq_3)

text \<open>
  When every row has \<open>start \<le> end\<close>, as the builder writes it for a record of the
  target with at least one symbol, the comparison of the query is the sharing of a
  position, and the fallback is returned whenever no exon shares a position with a row.
\<close>

lemma get_spliced_no_shared_position:
  assumes "strand = 1 \<or> strand = - 1"
    and "length starts = length ends"
    and "\<forall>(exonstart, exonend) \<in> set (zip starts ends). exonstart < exonend"
    and "offset_data (db_con idx) = Some rows"
    and "\<forall>(bin, start_v, end_v, offset) \<in> set rows. start_v \<le> end_v"
    and "\<forall>(bin, start_v, end_v, offset) \<in> set rows.
           \<forall>(exonstart, exonend) \<in> set (zip starts ends).
             \<not> (\<exists>p. start_v \<le> p \<and> p \<le> end_v \<and> exonstart \<le> p \<and> p < exonend)"
  shows "get_spliced idx starts ends strand =
           Inr [\<lparr>seq = replicate (nat (\<Sum>(exonstart, exonend) \<leftarrow> zip starts ends. exonend - exonstart))
                        CHR ''N'',
                 rec_id = target_seqname idx, name = None, description = None,
                 annotations = []\<rparr>]"
proof (rule get_spliced_no_matching_row [OF assms(1-4)])
  show "\<forall>(bin, start_v, end_v, offset) \<in> set rows.
           \<forall>(exonstart, exonend) \<in> set (zip starts ends).
             \<not> overlaps exonstart exonend start_v end_v"
  proof (intro ballI, clarify)
    fix bin start_v end_v offset exonstart exonend
    assume row: "(bin, start_v, end_v, offset) \<in> set rows"
      and ex: "(exonstart, exonend) \<in> set (zip starts ends)"
      and ov: "overlaps exonstart exonend start_v end_v"
    have le: "start_v \<le> end_v"
      using assms(5) row by blast
    have lt: "exonstart < exonend"
      using assms(3) ex by blast
    have "\<exists>p. start_v \<le> p \<and> p \<le> end_v \<and> exonstart \<le> p \<and> p < exonend"
      using ov overlaps_iff_common_position [OF le lt] by blast
    moreover have "\<not> (\<exists>p. start_v \<le> p \<and> p \<le> end_v \<and> exonstart \<le> p \<and> p < exonend)"
      using assms(6) row ex by blast
    ultimately show False by blast
  qed
qed

text \<open>
  C6. The claim is that \<open>get_spliced\<close> returns one record, with the id of the target and
  the text \<open>N\<close> repeated as many times as the exons have positions, whenever the exons
  overlap no indexed bundle. For a bundle whose record of the target has no symbol
  (size 0, a text of gaps) the builder writes a row with \<open>end = start - 1\<close>, here
  \<open>(100, 99)\<close>. The exon \<open>[95, 100)\<close> shares no position with that row, and the inclusive
  comparison \<open>end \<ge> queryStart\<close> and \<open>queryEnd \<ge> start\<close> is false of it; the query of
  \<open>search\<close> selects the row all the same, since its \<open>end\<close> lies between 95 and 99, and
  \<open>get_spliced\<close> then fails with a \<open>KeyError\<close> where the fallback was due.
\<close>

theorem get_spliced_zero_size_record:
  "maf_indexer zero_text ''ref'' = ([(585, 100, 99, 0)], None)
   \<and> {100 .. 99} \<inter> {95 ..< 100} = ({} :: int set)
   \<and> \<not> ((99::int) \<ge> 95 \<and> (99::int) \<ge> 100)
   \<and> overlaps 95 100 100 99
   \<and> search zero_index [95] [100] = ([zero_block], None)
   \<and> get_spliced zero_index [95] [100] 1 = Inl KeyError"
  by (intro conjI; code_simp)

lemma complement_gap_iff: "complement c = CHR ''-'' \<longleftrightarrow> c = CHR ''-''"
  by (simp add: complement_def complement_table_def)

lemma length_reverse_complement: "length (reverse_complement s) = length s"
  by (simp add: reverse_complement_def)

lemma ungapped_reverse_complement:
  "length (remove_char CHR ''-'' (reverse_complement s)) = length (remove_char CHR ''-'' s)"
proof -
  have "length (filter (\<lambda>x. x \<noteq> CHR ''-'') (map complement s))
        = length (filter (\<lambda>x. x \<noteq> CHR ''-'') s)"
    by (induction s) (simp_all add: complement_gap_iff)
  then show ?thesis
    by (simp add: remove_char_def reverse_complement_def rev_filter [symmetric])
qed

lemma MultipleSeqAlignment_Inr: "MultipleSeqAlignment recs = Inr r \<Longrightarrow> r = recs"
  by (auto simp: MultipleSeqAlignment_def split: list.splits if_splits)

lemma MultipleSeqAlignment_same_length:
  "(\<forall>x \<in> set recs. \<forall>y \<in> set recs. length (seq x) = length (seq y))
   \<Longrightarrow> MultipleSeqAlignment recs = Inr recs"
  by (auto simp: MultipleSeqAlignment_def split: list.splits)

lemma search_ok_exons:
  assumes "search idx starts ends = (fetched, None)"
  shows "\<forall>(exonstart, exonend) \<in> set (zip starts ends). 1 \<le> exonend - exonstart"
  using assms by (auto simp: search_def split: if_splits)

lemma expected_letters_nonneg:
  fixes exons :: "(int \<times> int) list"
  assumes "\<forall>(exonstart, exonend) \<in> set exons. 1 \<le> exonend - exonstart"
  shows "0 \<le> (\<Sum>(start_v, end_v) \<leftarrow> exons. end_v - start_v)"
  using assms by (induction exons) auto

lemma splice_all_keys:
  "splice_all target sp realpos_to_len exons names = Inr subseq \<Longrightarrow> map fst subseq = names"
  by (induction names arbitrary: subseq) (auto split: sum.splits)

lemma spliced_texts_keys:
  assumes "spliced_texts target fetched exons = Inr (first_strand, subseq)"
  shows "distinct (map fst subseq)"
proof -
  have "map fst subseq = all_seqnames fetched"
    using assms
    by (auto simp: spliced_texts_def Let_def split: sum.splits if_splits dest: splice_all_keys)
  then show ?thesis
    by (simp add: all_seqnames_def)
qed

lemma lookup_distinct:
  assumes "distinct (map fst d)" and "lookup d k = Inr v" and "(k, w) \<in> set d"
  shows "w = v"
  using assms by (auto simp: lookup_def split: option.splits)

lemma lookup_mem: "lookup d k = Inr v \<Longrightarrow> (k, v) \<in> set d"
  by (auto simp: lookup_def split: option.splits dest: map_of_SomeD)

text \<open>What a successful \<open>checked_result\<close> says about its result.\<close>

lemma checked_result_Inr:
  assumes "checked_result target strand expected first_strand subseq = Inr result"
    and "distinct (map fst subseq)"
  shows "(\<exists>r \<in> set result. rec_id r = target)
       \<and> (\<forall>r \<in> set result. rec_id r = target
             \<longrightarrow> int (length (remove_char CHR ''-'' (seq r))) = expected)
       \<and> (\<forall>r \<in> set result. \<forall>r' \<in> set result. length (seq r) = length (seq r'))"
proof -
  obtain target_seq where t: "lookup subseq target = Inr target_seq"
    using assms(1) by (auto simp: checked_result_def split: sum.splits)
  have count: "int (length (remove_char CHR ''-'' target_seq)) = expected"
    using assms(1) t by (auto simp: checked_result_def split: if_splits)
  have same: "\<forall>(seqid, sq) \<in> set subseq. length sq = length target_seq"
    using assms(1) t count by (auto simp: checked_result_def Let_def split: if_splits)
  have result: "result = map (\<lambda>(seqid, sq).
                      \<lparr>seq = (if Some strand = first_strand then sq else reverse_complement sq),
                       rec_id = seqid, name = Some seqid, description = Some [],
                       annotations = []\<rparr>) subseq"
    using assms(1) t count same
    by (auto simp: checked_result_def Let_def split: if_splits dest!: MultipleSeqAlignment_Inr)
  have len: "length (seq r) = length target_seq" if "r \<in> set result" for r
    using that same by (auto simp: result length_reverse_complement)
  have "(target, target_seq) \<in> set subseq"
    using t by (rule lookup_mem)
  then have ex: "\<exists>r \<in> set result. rec_id r = target"
    by (force simp: result)
  have cnt: "int (length (remove_char CHR ''-'' (seq r))) = expected"
    if "r \<in> set result" and "rec_id r = target" for r
  proof -
    have "\<exists>p \<in> set subseq. r = (\<lambda>(seqid, sq).
                      \<lparr>seq = (if Some strand = first_strand then sq else reverse_complement sq),
                       rec_id = seqid, name = Some seqid, description = Some [],
                       annotations = []\<rparr>) p"
      using that(1) unfolding result set_map by (rule imageE) blast
    then obtain p where p: "p \<in> set subseq"
      and r0: "r = (\<lambda>(seqid, sq).
                      \<lparr>seq = (if Some strand = first_strand then sq else reverse_complement sq),
                       rec_id = seqid, name = Some seqid, description = Some [],
                       annotations = []\<rparr>) p"
      by blast
    obtain seqid sq where pq: "p = (seqid, sq)"
      by (cases p) auto
    have m: "(seqid, sq) \<in> set subseq"
      using p pq by simp
    have r: "r = \<lparr>seq = (if Some strand = first_strand then sq else reverse_complement sq),
                       rec_id = seqid, name = Some seqid, description = Some [],
                       annotations = []\<rparr>"
      using r0 unfolding pq by simp
    have "seqid = target" using that(2) r by simp
    then have "sq = target_seq"
      using lookup_distinct [OF assms(2) t] m by simp
    then show ?thesis
      using count by (simp add: r ungapped_reverse_complement)
  qed
  show ?thesis
    using ex cnt len by auto
qed

lemma checked_result_violation:
  assumes "lookup subseq target = Inr target_seq"
    and "int (length (remove_char CHR ''-'' target_seq)) \<noteq> expected
         \<or> (\<exists>(seqid, sq) \<in> set subseq. length sq \<noteq> length target_seq)"
  shows "checked_result target strand expected first_strand subseq
         = Inl (ValueError (if int (length (remove_char CHR ''-'' target_seq)) \<noteq> expected
                            then LetterCountMismatch else ReturnedLengthMismatch))"
  using assms by (auto simp: checked_result_def Let_def)

text \<open>
  C4. Whenever \<open>get_spliced\<close> returns an alignment, it has a record of the target, the
  text of every record of the target has, without its gap symbols, as many symbols as
  the exons have positions, and all texts are equally long. And when the spliced text
  of the target does not have that many symbols, or a spliced text differs in length
  from the target's, \<open>get_spliced\<close> raises a \<open>ValueError\<close>.
\<close>

theorem get_spliced_postconditions:
  "(get_spliced idx starts ends strand = Inr result \<longrightarrow>
      (\<exists>r \<in> set result. rec_id r = target_seqname idx)
      \<and> (\<forall>r \<in> set result. rec_id r = target_seqname idx
            \<longrightarrow> int (length (remove_char CHR ''-'' (seq r)))
                = (\<Sum>(start_v, end_v) \<leftarrow> zip starts ends. end_v - start_v))
      \<and> (\<forall>r \<in> set result. \<forall>r' \<in> set result. length (seq r) = length (seq r')))
   \<and> (search idx starts ends = (fetched, None) \<and> fetched \<noteq> []
        \<and> spliced_texts (target_seqname idx) fetched (zip starts ends) = Inr (first_strand, subseq)
        \<and> lookup subseq (target_seqname idx) = Inr target_seq
        \<and> (int (length (remove_char CHR ''-'' target_seq))
              \<noteq> (\<Sum>(start_v, end_v) \<leftarrow> zip starts ends. end_v - start_v)
           \<or> (\<exists>(seqid, sq) \<in> set subseq. length sq \<noteq> length target_seq))
        \<longrightarrow> (\<exists>e. get_spliced idx starts ends strand = Inl (ValueError e)))"
proof (rule conjI; intro impI)
  assume ok: "get_spliced idx starts ends strand = Inr result"
  let ?expected = "\<Sum>(start_v, end_v) \<leftarrow> zip starts ends. end_v - start_v"
  let ?goal = "(\<exists>r \<in> set result. rec_id r = target_seqname idx)
      \<and> (\<forall>r \<in> set result. rec_id r = target_seqname idx
            \<longrightarrow> int (length (remove_char CHR ''-'' (seq r))) = ?expected)
      \<and> (\<forall>r \<in> set result. \<forall>r' \<in> set result. length (seq r) = length (seq r'))"
  obtain fetched where s: "search idx starts ends = (fetched, None)"
    using ok by (cases "search idx starts ends") (auto simp: get_spliced_def split: if_splits option.splits)
  have nonneg: "0 \<le> ?expected"
    using search_ok_exons [OF s] by (rule expected_letters_nonneg)
  show ?goal
  proof (cases "fetched = []")
    case True
    then have "result = [\<lparr>seq = replicate (nat ?expected) CHR ''N'',
                     rec_id = target_seqname idx, name = None, description = None,
                     annotations = []\<rparr>]"
      using ok s by (auto simp: get_spliced_def split: if_splits dest!: MultipleSeqAlignment_Inr)
    then show ?thesis
      using nonneg by (simp add: remove_char_def)
  next
    case False
    then obtain first_strand subseq
      where t: "spliced_texts (target_seqname idx) fetched (zip starts ends) = Inr (first_strand, subseq)"
        and c: "checked_result (target_seqname idx) strand ?expected first_strand subseq = Inr result"
      using ok s by (auto simp: get_spliced_def split: if_splits sum.splits)
    show ?thesis
      using checked_result_Inr [OF c spliced_texts_keys [OF t]] .
  qed
next
  let ?expected = "\<Sum>(start_v, end_v) \<leftarrow> zip starts ends. end_v - start_v"
  assume a: "search idx starts ends = (fetched, None) \<and> fetched \<noteq> []
        \<and> spliced_texts (target_seqname idx) fetched (zip starts ends) = Inr (first_strand, subseq)
        \<and> lookup subseq (target_seqname idx) = Inr target_seq
        \<and> (int (length (remove_char CHR ''-'' target_seq)) \<noteq> ?expected
           \<or> (\<exists>(seqid, sq) \<in> set subseq. length sq \<noteq> length target_seq))"
  then have v: "\<exists>e. checked_result (target_seqname idx) strand ?expected first_strand subseq
                    = Inl (ValueError e)"
    using checked_result_violation [of subseq "target_seqname idx" target_seq ?expected strand first_strand]
    by blast
  show "\<exists>e. get_spliced idx starts ends strand = Inl (ValueError e)"
    using a v by (auto simp: get_spliced_def)
qed

text \<open>
  The exons \<open>[100, 103)\<close> and \<open>[110, 112)\<close> of the first example file give two texts of five
  symbols; the bundle of the second file, with two records of the target, gives the
  target six symbols for the three positions of the exon \<open>[100, 103)\<close>, which is refused.
\<close>

theorem get_spliced_postconditions_witness:
  "int (length (remove_char CHR ''-'' ''ACGAC'')) = (103 - 100) + (112 - 110)
   \<and> length ''ACGAC'' = length ''ACCAC''
   \<and> (\<exists>e. get_spliced twice_index [100] [103] 1 = Inl (ValueError e))"
  using get_spliced_postconditions [where idx = example_index and starts = "[100, 110]"
      and ends = "[103, 112]" and strand = 1
      and result = "[\<lparr>seq = ''ACGAC'', rec_id = ''ref'', name = Some ''ref'',
                       description = Some [], annotations = []\<rparr>,
                     \<lparr>seq = ''ACCAC'', rec_id = ''alt'', name = Some ''alt'',
                       description = Some [], annotations = []\<rparr>]"]
    get_spliced_postconditions [where idx = twice_index and starts = "[100]" and ends = "[103]"
      and strand = 1 and fetched = "[twice_block]" and first_strand = "Some 1"
      and subseq = "[(''ref'', ''AACCGG'')]" and target_seq = "''AACCGG''"]
    get_spliced_example search_twice spliced_texts_twice
  by (simp add: twice_index_def example_index_def lookup_def remove_char_def)

lemma check_strand_first:
  "check_strand None r = Inr fs \<Longrightarrow>
     fs = map_of (annotations r) ''strand'' \<and> (fs = Some 1 \<or> fs = Some (- 1))"
  by (auto simp: check_strand_def split: option.splits if_splits)

lemma check_strand_later: "check_strand (Some f) r = Inr fs \<Longrightarrow> fs = Some f"
  by (auto simp: check_strand_def split: option.splits if_splits)

lemma splice_block_strand:
  assumes "splice_block target st b = Inr st'"
  shows "\<exists>r. find (\<lambda>r. rec_id r = target) (records b) = Some r
            \<and> check_strand (ref_first_strand st) r = Inr (ref_first_strand st')"
  using assms
  by (auto simp: splice_block_def Let_def split: option.splits sum.splits)

lemma splice_blocks_strand_kept:
  "ref_first_strand st = Some f \<Longrightarrow> splice_blocks target st bs = Inr st'
   \<Longrightarrow> ref_first_strand st' = Some f"
proof (induction bs arbitrary: st)
  case Nil
  then show ?case by simp
next
  case (Cons b bs)
  then obtain st1 where b: "splice_block target st b = Inr st1"
    and bs: "splice_blocks target st1 bs = Inr st'"
    by (auto split: sum.splits)
  have "ref_first_strand st1 = Some f"
    using splice_block_strand [OF b] Cons.prems(1) by (auto dest: check_strand_later)
  then show ?case
    using Cons.IH bs by blast
qed

lemma spliced_texts_first_strand:
  assumes "spliced_texts target (b # bs) exons = Inr (fs, subseq)"
    and "find (\<lambda>r. rec_id r = target) (records b) = Some r"
  shows "fs = map_of (annotations r) ''strand'' \<and> (fs = Some 1 \<or> fs = Some (- 1))"
proof -
  let ?st0 = "\<lparr>split_by_position = map (\<lambda>seq_name. (seq_name, [])) (all_seqnames (b # bs)),
              total_rec_length = 0, ref_first_strand = None, track_val = None\<rparr>"
  obtain st where all: "splice_blocks target ?st0 (b # bs) = Inr st"
    and fs: "fs = ref_first_strand st"
    using assms(1)
    by (auto simp: spliced_texts_def Let_def split: sum.splits if_splits)
  obtain st1 where b: "splice_block target ?st0 b = Inr st1"
    and rest: "splice_blocks target st1 bs = Inr st"
    using all by (auto split: sum.splits)
  have c: "check_strand None r = Inr (ref_first_strand st1)"
    using splice_block_strand [OF b] assms(2) by auto
  note f = check_strand_first [OF c]
  then obtain s where s: "ref_first_strand st1 = Some s"
    by blast
  have "ref_first_strand st = Some s"
    using splice_blocks_strand_kept [OF s rest] .
  then show ?thesis
    using f s fs by metis
qed

lemma checked_result_strands:
  assumes "checked_result target s expected (Some s) subseq = Inr same"
  shows "same = map (\<lambda>(seqid, sq). \<lparr>seq = sq, rec_id = seqid, name = Some seqid,
                        description = Some [], annotations = []\<rparr>) subseq"
    and "s' \<noteq> s \<Longrightarrow> checked_result target s' expected (Some s) subseq
           = Inr (map (\<lambda>r. r\<lparr>seq := reverse_complement (seq r)\<rparr>) same)"
proof -
  obtain target_seq where t: "lookup subseq target = Inr target_seq"
    using assms by (auto simp: checked_result_def split: sum.splits)
  have count: "int (length (remove_char CHR ''-'' target_seq)) = expected"
    using assms t by (auto simp: checked_result_def split: if_splits)
  have len: "\<forall>(seqid, sq) \<in> set subseq. length sq = length target_seq"
    using assms t count by (auto simp: checked_result_def Let_def split: if_splits)
  show same: "same = map (\<lambda>(seqid, sq). \<lparr>seq = sq, rec_id = seqid, name = Some seqid,
                        description = Some [], annotations = []\<rparr>) subseq"
    using assms t count len
    by (auto simp: checked_result_def Let_def split: if_splits dest!: MultipleSeqAlignment_Inr)
  assume ne: "s' \<noteq> s"
  let ?rc = "map (\<lambda>(seqid, sq). \<lparr>seq = reverse_complement sq, rec_id = seqid, name = Some seqid,
                        description = Some [], annotations = []\<rparr>) subseq"
  have "\<forall>x \<in> set ?rc. length (seq x) = length target_seq"
    using len by (auto simp: length_reverse_complement)
  then have "\<forall>x \<in> set ?rc. \<forall>y \<in> set ?rc. length (seq x) = length (seq y)"
    by simp
  then have "MultipleSeqAlignment ?rc = Inr ?rc"
    by (rule MultipleSeqAlignment_same_length)
  moreover have "?rc = map (\<lambda>r. r\<lparr>seq := reverse_complement (seq r)\<rparr>) same"
    by (simp add: same split_beta)
  ultimately show "checked_result target s' expected (Some s) subseq
           = Inr (map (\<lambda>r. r\<lparr>seq := reverse_complement (seq r)\<rparr>) same)"
    using t count len ne by (auto simp: checked_result_def Let_def)
qed

text \<open>
  C5. Let \<open>ref_strand\<close> be the strand of the target's record in the first alignment
  fetched, and \<open>same\<close> the alignment that \<open>get_spliced\<close> returns for that strand. Then for
  the other strand \<open>get_spliced\<close> returns the records of \<open>same\<close> with every text
  reverse-complemented, and the texts of \<open>same\<close> are the spliced texts themselves.
\<close>

theorem get_spliced_other_strand:
  assumes "search idx starts ends = (first_block # others, None)"
    and "find (\<lambda>r. rec_id r = target_seqname idx) (records first_block) = Some ref_rec"
    and "map_of (annotations ref_rec) ''strand'' = Some ref_strand"
    and "get_spliced idx starts ends ref_strand = Inr same"
    and "strand = 1 \<or> strand = - 1"
  shows "get_spliced idx starts ends strand =
           (if strand = ref_strand then Inr same
            else Inr (map (\<lambda>r. r\<lparr>seq := reverse_complement (seq r)\<rparr>) same))
       \<and> (\<exists>first_strand subseq.
             spliced_texts (target_seqname idx) (first_block # others) (zip starts ends)
               = Inr (first_strand, subseq)
             \<and> first_strand = Some ref_strand
             \<and> map (\<lambda>r. (rec_id r, seq r)) same = subseq)"
proof -
  let ?expected = "\<Sum>(start_v, end_v) \<leftarrow> zip starts ends. end_v - start_v"
  have rs: "ref_strand = 1 \<or> ref_strand = - 1"
    using assms(4) by (auto simp: get_spliced_def split: if_splits)
  obtain first_strand subseq
    where t: "spliced_texts (target_seqname idx) (first_block # others) (zip starts ends)
               = Inr (first_strand, subseq)"
      and c: "checked_result (target_seqname idx) ref_strand ?expected first_strand subseq = Inr same"
    using assms(4) assms(1) rs by (auto simp: get_spliced_def split: sum.splits)
  have fs: "first_strand = Some ref_strand"
    using spliced_texts_first_strand [OF t assms(2)] assms(3) by simp
  note cr = checked_result_strands [OF c [unfolded fs]]
  have "map (\<lambda>r. (rec_id r, seq r)) same = subseq"
    by (simp add: cr(1) split_beta comp_def)
  moreover have "get_spliced idx starts ends strand =
           (if strand = ref_strand then Inr same
            else Inr (map (\<lambda>r. r\<lparr>seq := reverse_complement (seq r)\<rparr>) same))"
  proof (cases "strand = ref_strand")
    case True
    then show ?thesis using assms(4) by simp
  next
    case False
    have "get_spliced idx starts ends strand
          = checked_result (target_seqname idx) strand ?expected (Some ref_strand) subseq"
      using assms(1,5) t fs by (auto simp: get_spliced_def)
    then show ?thesis
      using cr(2) [OF False] False by simp
  qed
  ultimately show ?thesis
    using t fs by blast
qed

text \<open>
  The target of the first example file is on the strand 1; for the strand \<open>-1\<close> the two
  texts \<open>ACGAC\<close> and \<open>ACCAC\<close> come back reverse-complemented.
\<close>

theorem get_spliced_other_strand_witness:
  "get_spliced example_index [100, 110] [103, 112] (- 1) =
     Inr [\<lparr>seq = ''GTCGT'', rec_id = ''ref'', name = Some ''ref'', description = Some [],
            annotations = []\<rparr>,
          \<lparr>seq = ''GTGGT'', rec_id = ''alt'', name = Some ''alt'', description = Some [],
            annotations = []\<rparr>]"
  using get_spliced_other_strand [where idx = example_index and starts = "[100, 110]"
      and ends = "[103, 112]" and strand = "- 1" and first_block = example_block1
      and others = "[example_block2]" and ref_strand = 1
      and ref_rec = "\<lparr>seq = ''ACGTA'', rec_id = ''ref'', name = Some ''ref'', description = Some [],
          annotations = [(''start'', 100), (''size'', 5), (''strand'', 1), (''srcSize'', 1000)]\<rparr>"
      and same = "[\<lparr>seq = ''ACGAC'', rec_id = ''ref'', name = Some ''ref'',
                       description = Some [], annotations = []\<rparr>,
                     \<lparr>seq = ''ACCAC'', rec_id = ''alt'', name = Some ''alt'',
                       description = Some [], annotations = []\<rparr>]"]
    search_example_two_exons get_spliced_example
  by (simp add: example_index_def example_block1_def reverse_complement_def complement_def
      complement_table_def)

end
